theory Spec2Isabelle
  imports Complex_Main "HOL-Library.AList"
begin

section \<open>Python values\<close>

text \<open>
  A Python \<open>str\<close> is a sequence of Unicode code points, so it is modelled as a list of
  natural numbers: \<open>len\<close>, slicing and the regular expressions of the program all count
  code points. \<open>lit\<close> turns an ASCII literal into such a string.
\<close>

type_synonym pystr = "nat list"

definition lit :: "string \<Rightarrow> pystr" where
  "lit s = map of_char s"

text \<open>
  The values the pipeline handles are the ones the JSON decoder produces: \<open>None\<close>,
  booleans, integers, floats (as reals), strings, lists and dictionaries. A dictionary is
  an association list with distinct keys in insertion order.
\<close>

datatype pyval =
    PNone
  | PBool bool
  | PInt int
  | PFloat real
  | PStr pystr
  | PList "pyval list"
  | PDict "(pystr \<times> pyval) list"

type_synonym pydict = "(pystr \<times> pyval) list"

text \<open>The exceptions the modelled code can meet. \<open>OtherException\<close> stands for anything
  else a library call or the oracle raises (a transport error, \<open>RecursionError\<close>, ...).\<close>

datatype pyexc = JSONDecodeError | ValueError | TypeError | AttributeError | OtherException

fun truthy :: "pyval \<Rightarrow> bool" where
  "truthy PNone = False"
| "truthy (PBool b) = b"
| "truthy (PInt i) = (i \<noteq> 0)"
| "truthy (PFloat r) = (r \<noteq> 0)"
| "truthy (PStr s) = (s \<noteq> [])"
| "truthy (PList xs) = (xs \<noteq> [])"
| "truthy (PDict d) = (d \<noteq> [])"

text \<open>\<open>d.get(k)\<close>, \<open>d.get(k, default)\<close> and \<open>d[k] = v\<close>.\<close>

definition dict_get :: "pydict \<Rightarrow> pystr \<Rightarrow> pyval" where
  "dict_get d k = (case map_of d k of Some v \<Rightarrow> v | None \<Rightarrow> PNone)"

definition dict_get_or :: "pydict \<Rightarrow> pystr \<Rightarrow> pyval \<Rightarrow> pyval" where
  "dict_get_or d k dflt = (case map_of d k of Some v \<Rightarrow> v | None \<Rightarrow> dflt)"

definition dict_has :: "pydict \<Rightarrow> pystr \<Rightarrow> bool" where
  "dict_has d k = (map_of d k \<noteq> None)"

definition dict_set :: "pydict \<Rightarrow> pystr \<Rightarrow> pyval \<Rightarrow> pydict" where
  "dict_set d k v = AList.update k v d"

text \<open>\<open>w in s\<close> on strings: \<open>w\<close> occurs in \<open>s\<close> as a contiguous piece.\<close>

fun is_substr :: "pystr \<Rightarrow> pystr \<Rightarrow> bool" where
  "is_substr w [] = (w = [])"
| "is_substr w (c # s) = (take (length w) (c # s) = w \<or> is_substr w s)"

text \<open>\<open>field in container\<close> for a string \<open>field\<close>: key membership in a dictionary,
  element membership in a list, substring test in a string, \<open>TypeError\<close> otherwise.\<close>

fun py_in :: "pystr \<Rightarrow> pyval \<Rightarrow> pyexc + bool" where
  "py_in k (PDict d) = Inr (dict_has d k)"
| "py_in k (PList xs) = Inr (PStr k \<in> set xs)"
| "py_in k (PStr s) = Inr (is_substr k s)"
| "py_in k PNone = Inl TypeError"
| "py_in k (PBool b) = Inl TypeError"
| "py_in k (PInt i) = Inl TypeError"
| "py_in k (PFloat r) = Inl TypeError"

text \<open>\<open>s.find(c)\<close> and \<open>s.rfind(c)\<close> for a single character: the first and the last
  index of \<open>c\<close>, or \<open>-1\<close>; and the slice \<open>s[i:j]\<close> for \<open>0 \<le> i\<close>, \<open>0 \<le> j\<close>.\<close>

fun find_char :: "nat \<Rightarrow> pystr \<Rightarrow> int" where
  "find_char c [] = - 1"
| "find_char c (x # s) =
     (if x = c then 0 else (let i = find_char c s in if i = - 1 then - 1 else i + 1))"

definition rfind_char :: "nat \<Rightarrow> pystr \<Rightarrow> int" where
  "rfind_char c s =
     (let i = find_char c (rev s) in if i = - 1 then - 1 else int (length s) - 1 - i)"

definition slice :: "pystr \<Rightarrow> int \<Rightarrow> int \<Rightarrow> pystr" where
  "slice s i j = take (nat j - nat i) (drop (nat i) s)"

section \<open>The Python runtime the program stands on\<close>

text \<open>
  The program calls into the standard library: the Unicode tables behind \<open>\s\<close>, \<open>\d\<close>
  and \<open>\w\<close> of \<open>re\<close> and behind \<open>str.strip\<close> and \<open>str.lower\<close>, the decoder
  \<open>json.loads\<close>, \<open>hashlib.md5\<close>, and \<open>datetime\<close> with the system clock. None of
  this is code of the repository, so the model takes it as a parameter. A \<open>datetime\<close>
  is the second of the time line it stands for, naive (no UTC offset, read as local time)
  or aware (with an offset); Python refuses to subtract an aware one from a naive one.
  \<^item> \<open>re_space\<close>, \<open>re_digit\<close>, \<open>re_alnum\<close>: the three character tables;
  \<^item> \<open>str_lower\<close>: \<open>str.lower\<close>;
  \<^item> \<open>json_loads\<close>: \<open>json.loads\<close> on a string, \<open>Inl\<close> the exception it raises;
  \<^item> \<open>md5_hexdigest\<close>: \<open>hashlib.md5(s.encode()).hexdigest()\<close>;
  \<^item> \<open>from_timestamp\<close>: \<open>datetime.fromtimestamp(t)\<close>, a naive local time, or \<open>None\<close>
    when it raises (a number out of range);
  \<^item> \<open>from_isoformat\<close>: \<open>datetime.fromisoformat(s)\<close>, or \<open>None\<close> when it raises;
  \<^item> \<open>now_seconds\<close>: \<open>datetime.now()\<close>, a naive local time.
\<close>

datatype pydatetime = Naive real | Aware real

record pylib =
  re_space :: "nat \<Rightarrow> bool"
  re_digit :: "nat \<Rightarrow> bool"
  re_alnum :: "nat \<Rightarrow> bool"
  str_lower :: "pystr \<Rightarrow> pystr"
  json_loads :: "pystr \<Rightarrow> pyexc + pyval"
  md5_hexdigest :: "pystr \<Rightarrow> pystr"
  from_timestamp :: "real \<Rightarrow> real option"
  from_isoformat :: "pystr \<Rightarrow> pydatetime option"
  now_seconds :: real

definition strip :: "pylib \<Rightarrow> pystr \<Rightarrow> pystr" where
  "strip L s = rev (dropWhile (re_space L) (rev (dropWhile (re_space L) s)))"

section \<open>Regular expressions\<close>

text \<open>
  The fragment of \<open>re\<close> the program uses: one character of a class, a literal string,
  greedy repetition of a class (\<open>*\<close> and \<open>+\<close>), concatenation, a numbered group and a
  lookahead. Matching backtracks the way \<open>re\<close> does: a repetition first takes as many
  characters as it can and gives them back one at a time while the rest of the pattern
  fails. The continuation receives the rest of the text and the groups captured so far.
\<close>

datatype rx =
    Sym "nat \<Rightarrow> bool"
  | Str pystr
  | Many "nat \<Rightarrow> bool"
  | Many1 "nat \<Rightarrow> bool"
  | Cat rx rx
  | Grp nat rx
  | Look rx

type_synonym caps = "(nat \<times> pystr) list"

fun many :: "(nat \<Rightarrow> bool) \<Rightarrow> pystr \<Rightarrow> (pystr \<Rightarrow> 'a option) \<Rightarrow> 'a option" where
  "many p [] k = k []"
| "many p (c # s) k =
     (if p c then (case many p s k of Some r \<Rightarrow> Some r | None \<Rightarrow> k (c # s))
      else k (c # s))"

fun rmatch :: "rx \<Rightarrow> pystr \<Rightarrow> caps \<Rightarrow> (pystr \<Rightarrow> caps \<Rightarrow> (pystr \<times> caps) option)
    \<Rightarrow> (pystr \<times> caps) option" where
  "rmatch (Sym p) s g k = (case s of [] \<Rightarrow> None | c # t \<Rightarrow> if p c then k t g else None)"
| "rmatch (Str w) s g k = (if take (length w) s = w then k (drop (length w) s) g else None)"
| "rmatch (Many p) s g k = many p s (\<lambda>t. k t g)"
| "rmatch (Many1 p) s g k =
     (case s of [] \<Rightarrow> None | c # t \<Rightarrow> if p c then many p t (\<lambda>t'. k t' g) else None)"
| "rmatch (Cat a b) s g k = rmatch a s g (\<lambda>t g'. rmatch b t g' k)"
| "rmatch (Grp n a) s g k =
     rmatch a s g (\<lambda>t g'. k t ((n, take (length s - length t) s) # g'))"
| "rmatch (Look a) s g k =
     (case rmatch a s g (\<lambda>t g'. Some (t, g')) of None \<Rightarrow> None | Some m \<Rightarrow> k s g)"

text \<open>A match starting at the head of \<open>s\<close>: the text after the match and the groups.\<close>

definition match_at :: "rx \<Rightarrow> pystr \<Rightarrow> (pystr \<times> caps) option" where
  "match_at r s = rmatch r s [] (\<lambda>t g. Some (t, g))"

definition grp :: "caps \<Rightarrow> nat \<Rightarrow> pystr" where
  "grp g n = (case map_of g n of Some w \<Rightarrow> w | None \<Rightarrow> [])"

text \<open>
  \<open>re.sub(pattern, repl, s)\<close>: scan from the left; where the pattern matches, emit the
  replacement and go on after the match; elsewhere copy the character. An empty match
  emits the replacement and copies one character.
\<close>

function re_sub :: "rx \<Rightarrow> (caps \<Rightarrow> pystr) \<Rightarrow> pystr \<Rightarrow> pystr" where
  "re_sub r rep [] = (case match_at r [] of Some (t, g) \<Rightarrow> rep g | None \<Rightarrow> [])"
| "re_sub r rep (c # s) =
     (case match_at r (c # s) of
        None \<Rightarrow> c # re_sub r rep s
      | Some (t, g) \<Rightarrow>
          if length t < length (c # s) then rep g @ re_sub r rep t
          else rep g @ c # re_sub r rep s)"
  by pat_completeness auto
termination
  by (relation "measure (\<lambda>(r, rep, s). length s)") auto

text \<open>\<open>s.replace(old, new)\<close> replaces the occurrences of \<open>old\<close> from the left, without
  overlap.\<close>

definition str_replace :: "pystr \<Rightarrow> pystr \<Rightarrow> pystr \<Rightarrow> pystr" where
  "str_replace old new s = re_sub (Str old) (\<lambda>g. new) s"

section \<open>core/utils/json\_utils.py\<close>

text \<open>The two fence patterns \<^verbatim>\<open>```json\s*\<close> and \<^verbatim>\<open>```\s*\<close>, shared with the batch
  parser and the single-item parser.\<close>

definition fence_json_rx :: "pylib \<Rightarrow> rx" where
  "fence_json_rx L = Cat (Str (lit ''```json'')) (Many (re_space L))"

definition fence_rx :: "pylib \<Rightarrow> rx" where
  "fence_rx L = Cat (Str (lit ''```'')) (Many (re_space L))"

definition strip_fences :: "pylib \<Rightarrow> pystr \<Rightarrow> pystr" where
  "strip_fences L text =
     strip L (re_sub (fence_rx L) (\<lambda>g. []) (re_sub (fence_json_rx L) (\<lambda>g. []) text))"

text \<open>The class \<^verbatim>\<open>[\x00-\x08\x0B\x0C\x0E-\x1F\x7F]\<close>.\<close>

definition control_char :: "nat \<Rightarrow> bool" where
  "control_char c = (c \<le> 8 \<or> c = 11 \<or> c = 12 \<or> (14 \<le> c \<and> c \<le> 31) \<or> c = 127)"

text \<open>Code points: 34 is the double quote, 39 the single quote, 92 the backslash.\<close>

definition basic_clean :: "pylib \<Rightarrow> pystr \<Rightarrow> pystr" where
  "basic_clean L text =
     (let text = strip_fences L text;
          text = re_sub (Sym control_char) (\<lambda>g. []) text;
          text = str_replace [92, 34] [34] text;
          text = str_replace [92, 39] [39] text
      in text)"

text \<open>
  The eight substitutions of \<open>_fix_common_json_issues\<close>, in the order of the source:
  \<^verbatim>\<open>([^\\])"([^"\\]*)"\<close> to \<^verbatim>\<open>\1"\2"\<close>,
  \<^verbatim>\<open>'([^']*)'\<close> to \<^verbatim>\<open>"\1"\<close>,
  \<^verbatim>\<open>("\s*")\s*"\<close> to \<^verbatim>\<open>\1, "\<close>,
  \<^verbatim>\<open>(\d)\s*"\<close> to \<^verbatim>\<open>\1, "\<close>,
  \<^verbatim>\<open>}\s*"\<close> to \<^verbatim>\<open>}, "\<close>,
  \<^verbatim>\<open>]\s*"\<close> to \<^verbatim>\<open>], "\<close>,
  \<^verbatim>\<open>(\w+):\s*([^",{}\[\]]+)(?=\s*[,}\]])\<close> to \<^verbatim>\<open>"\1": "\2"\<close>,
  \<^verbatim>\<open>,\s*([}\]])\<close> to \<^verbatim>\<open>\1\<close>.
\<close>

definition rx_unescaped_quote :: rx where
  "rx_unescaped_quote =
     Cat (Grp 1 (Sym (\<lambda>c. c \<noteq> 92)))
      (Cat (Str [34]) (Cat (Grp 2 (Many (\<lambda>c. c \<noteq> 34 \<and> c \<noteq> 92))) (Str [34])))"

definition rx_single_quoted :: rx where
  "rx_single_quoted = Cat (Str [39]) (Cat (Grp 1 (Many (\<lambda>c. c \<noteq> 39))) (Str [39]))"

definition rx_adjacent_strings :: "pylib \<Rightarrow> rx" where
  "rx_adjacent_strings L =
     Cat (Grp 1 (Cat (Str [34]) (Cat (Many (re_space L)) (Str [34]))))
      (Cat (Many (re_space L)) (Str [34]))"

definition rx_digit_quote :: "pylib \<Rightarrow> rx" where
  "rx_digit_quote L = Cat (Grp 1 (Sym (re_digit L))) (Cat (Many (re_space L)) (Str [34]))"

definition rx_brace_quote :: "pylib \<Rightarrow> rx" where
  "rx_brace_quote L = Cat (Str (lit ''}'')) (Cat (Many (re_space L)) (Str [34]))"

definition rx_bracket_quote :: "pylib \<Rightarrow> rx" where
  "rx_bracket_quote L = Cat (Str (lit '']'')) (Cat (Many (re_space L)) (Str [34]))"

definition re_word :: "pylib \<Rightarrow> nat \<Rightarrow> bool" where
  "re_word L c = (re_alnum L c \<or> c = 95)"

definition bare_value_char :: "nat \<Rightarrow> bool" where
  "bare_value_char c = (c \<noteq> 34 \<and> c \<noteq> 44 \<and> c \<noteq> 123 \<and> c \<noteq> 125 \<and> c \<noteq> 91 \<and> c \<noteq> 93)"

definition rx_bare_pair :: "pylib \<Rightarrow> rx" where
  "rx_bare_pair L =
     Cat (Grp 1 (Many1 (re_word L)))
      (Cat (Str (lit '':''))
        (Cat (Many (re_space L))
          (Cat (Grp 2 (Many1 bare_value_char))
            (Look (Cat (Many (re_space L)) (Sym (\<lambda>c. c = 44 \<or> c = 125 \<or> c = 93)))))))"

definition rx_trailing_comma :: "pylib \<Rightarrow> rx" where
  "rx_trailing_comma L =
     Cat (Str (lit '','')) (Cat (Many (re_space L)) (Grp 1 (Sym (\<lambda>c. c = 125 \<or> c = 93))))"

definition fix_common_json_issues :: "pylib \<Rightarrow> pystr \<Rightarrow> pystr" where
  "fix_common_json_issues L text =
     (let text = re_sub rx_unescaped_quote (\<lambda>g. grp g 1 @ [34] @ grp g 2 @ [34]) text;
          text = re_sub rx_single_quoted (\<lambda>g. [34] @ grp g 1 @ [34]) text;
          text = re_sub (rx_adjacent_strings L) (\<lambda>g. grp g 1 @ [44, 32, 34]) text;
          text = re_sub (rx_digit_quote L) (\<lambda>g. grp g 1 @ [44, 32, 34]) text;
          text = re_sub (rx_brace_quote L) (\<lambda>g. [125, 44, 32, 34]) text;
          text = re_sub (rx_bracket_quote L) (\<lambda>g. [93, 44, 32, 34]) text;
          text = re_sub (rx_bare_pair L)
                   (\<lambda>g. [34] @ grp g 1 @ [34, 58, 32, 34] @ grp g 2 @ [34]) text;
          text = re_sub (rx_trailing_comma L) (\<lambda>g. grp g 1) text
      in text)"

text \<open>\<open>_build_fallback_json\<close>: the text
  \<^verbatim>\<open>{"error": "JSON....", "analysis_type": "fallback"}\<close>, where the four dots are the
  code points U+89E3, U+6790, U+5931, U+8D25; and the object it denotes.\<close>

definition fallback_message :: pystr where
  "fallback_message = lit ''JSON'' @ [35299, 26512, 22833, 36133]"

definition build_fallback_json :: pystr where
  "build_fallback_json =
     lit ''{\"error\": \"'' @ fallback_message @ lit ''\", \"analysis_type\": \"fallback\"}''"

definition fallback_object :: pyval where
  "fallback_object =
     PDict [(lit ''error'', PStr fallback_message), (lit ''analysis_type'', PStr (lit ''fallback''))]"

text \<open>\<open>_is_valid_json\<close> catches every exception.\<close>

definition is_valid_json :: "pylib \<Rightarrow> pystr \<Rightarrow> bool" where
  "is_valid_json L text = (case json_loads L text of Inr v \<Rightarrow> True | Inl e \<Rightarrow> False)"

text \<open>The span from the first \<open>{\<close> (123) to the last \<open>}\<close> (125), when both exist.\<close>

definition brace_span :: "pystr \<Rightarrow> pystr" where
  "brace_span text =
     (let start = find_char 123 text; end = rfind_char 125 text + 1
      in if start \<noteq> - 1 \<and> end \<noteq> 0 then slice text start end else text)"

definition aggressive_json_repair :: "pylib \<Rightarrow> pystr \<Rightarrow> pystr" where
  "aggressive_json_repair L text =
     (let text = brace_span text
      in if \<not> is_valid_json L text then build_fallback_json else text)"

text \<open>
  \<open>safe_json_parse\<close>. The first \<open>try\<close> catches \<open>json.JSONDecodeError\<close> only, so any
  other exception of the first decoding leaves the function; the second \<open>try\<close> catches
  everything and returns \<open>default\<close>.
\<close>

definition safe_json_parse :: "pylib \<Rightarrow> pyval \<Rightarrow> pyval \<Rightarrow> pyexc + pyval" where
  "safe_json_parse L json_str dflt =
     (case json_str of
        PStr s \<Rightarrow>
          if s = [] then Inr dflt
          else
            (let cleaned = fix_common_json_issues L (basic_clean L s)
             in case json_loads L cleaned of
                  Inr v \<Rightarrow> Inr v
                | Inl e \<Rightarrow>
                    if e = JSONDecodeError then
                      (case json_loads L (aggressive_json_repair L cleaned) of
                         Inr v \<Rightarrow> Inr v
                       | Inl e' \<Rightarrow> Inr dflt)
                    else Inl e)
      | _ \<Rightarrow> Inr dflt)"

section \<open>A reference instance of the runtime\<close>

text \<open>
  The general theorems below hold for every runtime. To evaluate the program at concrete
  inputs a runtime is needed, and \<open>py_ref\<close> is one: \<open>ref_json_loads\<close> decodes the
  JSON grammar the way \<open>json.loads\<close> does (whitespace, objects with the last value of a
  repeated key, arrays, strings with escapes and surrogate pairs, strict about control
  characters, integers, and floats as exact decimals; it does not know \<open>NaN\<close> and
  \<open>Infinity\<close>), \<open>ref_space\<close> is the whitespace table of Python 3, and the digit,
  alphanumeric and lower-case tables are the ASCII ones. The decoder raises nothing but
  \<open>JSONDecodeError\<close>: the \<open>ValueError\<close> of CPython on an integer of more than 4300
  digits and its \<open>RecursionError\<close> on deep nesting are not modelled. The digest is the
  identity (any injective function serves). The clock stands at second 1700000000, which
  is 2023-11-14 22:13:20 with UTC as local time; every number in range is a timestamp, and
  of all strings only the two sample timestamps of this file are read, one naive and two
  hours old, one aware and half an hour old. The instance is used on ASCII inputs only.
\<close>

definition json_ws :: "nat \<Rightarrow> bool" where
  "json_ws c = (c = 32 \<or> c = 9 \<or> c = 10 \<or> c = 13)"

definition skip_ws :: "pystr \<Rightarrow> pystr" where
  "skip_ws s = dropWhile json_ws s"

text \<open>Numbers: \<^verbatim>\<open>-?(0|[1-9][0-9]*)(\.[0-9]+)?([eE][-+]?[0-9]+)?\<close>, the longest match.\<close>

definition ascii_digit :: "nat \<Rightarrow> bool" where
  "ascii_digit c = (48 \<le> c \<and> c \<le> 57)"

definition digits_value :: "pystr \<Rightarrow> int" where
  "digits_value ds = foldl (\<lambda>a c. 10 * a + (int c - 48)) 0 ds"

definition hex_value :: "nat \<Rightarrow> nat option" where
  "hex_value c =
     (if 48 \<le> c \<and> c \<le> 57 then Some (c - 48)
      else if 97 \<le> c \<and> c \<le> 102 then Some (c - 87)
      else if 65 \<le> c \<and> c \<le> 70 then Some (c - 55)
      else None)"

definition hex4 :: "pystr \<Rightarrow> (nat \<times> pystr) option" where
  "hex4 s =
     (case s of
        a # b # c # d # r \<Rightarrow>
          (case (hex_value a, hex_value b, hex_value c, hex_value d) of
             (Some x, Some y, Some z, Some w) \<Rightarrow> Some (((x * 16 + y) * 16 + z) * 16 + w, r)
           | _ \<Rightarrow> None)
      | _ \<Rightarrow> None)"

definition unicode_escape :: "pystr \<Rightarrow> (nat \<times> pystr) option" where
  "unicode_escape s =
     (case hex4 s of
        None \<Rightarrow> None
      | Some (hi, r) \<Rightarrow>
          if 55296 \<le> hi \<and> hi \<le> 56319 \<and> take 2 r = [92, 117] then
            (case hex4 (drop 2 r) of
               Some (lo, r') \<Rightarrow>
                 if 56320 \<le> lo \<and> lo \<le> 57343
                 then Some (65536 + (hi - 55296) * 1024 + (lo - 56320), r')
                 else Some (hi, r)
             | None \<Rightarrow> Some (hi, r))
          else Some (hi, r))"

definition simple_escape :: "nat \<Rightarrow> nat option" where
  "simple_escape c =
     (if c = 34 \<or> c = 92 \<or> c = 47 then Some c
      else if c = 98 then Some 8
      else if c = 102 then Some 12
      else if c = 110 then Some 10
      else if c = 114 then Some 13
      else if c = 116 then Some 9
      else None)"

text \<open>The body of a string after its opening quote: the decoded text and the rest.\<close>

function scan_string :: "pystr \<Rightarrow> pystr \<Rightarrow> (pystr \<times> pystr) option" where
  "scan_string [] acc = None"
| "scan_string (c # s) acc =
     (if c = 34 then Some (rev acc, s)
      else if c = 92 then
        (case s of
           [] \<Rightarrow> None
         | e # r \<Rightarrow>
             if e = 117 then
               (case unicode_escape r of
                  None \<Rightarrow> None
                | Some (cp, r') \<Rightarrow> if length r' < length r then scan_string r' (cp # acc) else None)
             else
               (case simple_escape e of
                  None \<Rightarrow> None
                | Some x \<Rightarrow> scan_string r (x # acc)))
      else if c < 32 then None
      else scan_string s (c # acc))"
  by pat_completeness auto
termination
  by (relation "measure (\<lambda>(s, acc). length s)") auto

definition scan_number :: "pystr \<Rightarrow> (pyval \<times> pystr) option" where
  "scan_number s =
     (let neg = (take 1 s = [45]);
          s1 = (if neg then drop 1 s else s);
          ip = (if take 1 s1 = [48] then [48] else takeWhile ascii_digit s1);
          s2 = drop (length ip) s1;
          fd = (if take 1 s2 = [46] then takeWhile ascii_digit (drop 1 s2) else []);
          s3 = (if fd = [] then s2 else drop (length fd + 1) s2);
          has_e = (take 1 s3 = [101] \<or> take 1 s3 = [69]);
          s4 = (if has_e then drop 1 s3 else s3);
          eneg = (take 1 s4 = [45]);
          s5 = (if take 1 s4 = [45] \<or> take 1 s4 = [43] then drop 1 s4 else s4);
          ed = (if has_e then takeWhile ascii_digit s5 else []);
          s6 = (if ed = [] then s3 else drop (length ed) s5);
          sgn = (if neg then - 1 else 1)
      in if ip = [] then None
         else if fd = [] \<and> ed = [] then Some (PInt (sgn * digits_value ip), s6)
         else
           (let m = real_of_int (digits_value (ip @ fd)) / 10 ^ length fd;
                e = nat (digits_value ed)
            in Some (PFloat (real_of_int sgn * (if eneg then m / 10 ^ e else m * 10 ^ e)), s6)))"

definition expect :: "nat \<Rightarrow> pystr \<Rightarrow> pystr option" where
  "expect c s = (case s of [] \<Rightarrow> None | x # r \<Rightarrow> if x = c then Some r else None)"

text \<open>The fuel bounds the number of nested calls; \<open>ref_json_loads\<close> gives enough of it
  (two calls at most per character).\<close>

fun decode_value :: "nat \<Rightarrow> pystr \<Rightarrow> (pyval \<times> pystr) option"
  and decode_items :: "nat \<Rightarrow> pystr \<Rightarrow> pyval list \<Rightarrow> (pyval \<times> pystr) option"
  and decode_members :: "nat \<Rightarrow> pystr \<Rightarrow> pydict \<Rightarrow> (pyval \<times> pystr) option" where
  "decode_value 0 s = None"
| "decode_value (Suc n) s =
     (case s of
        [] \<Rightarrow> None
      | c # r \<Rightarrow>
          if c = 34 then
            (case scan_string r [] of None \<Rightarrow> None | Some (w, r') \<Rightarrow> Some (PStr w, r'))
          else if c = 123 then
            (case expect 125 (skip_ws r) of
               Some r' \<Rightarrow> Some (PDict [], r')
             | None \<Rightarrow> decode_members n (skip_ws r) [])
          else if c = 91 then
            (case expect 93 (skip_ws r) of
               Some r' \<Rightarrow> Some (PList [], r')
             | None \<Rightarrow> decode_items n (skip_ws r) [])
          else if take 4 s = lit ''null'' then Some (PNone, drop 4 s)
          else if take 4 s = lit ''true'' then Some (PBool True, drop 4 s)
          else if take 5 s = lit ''false'' then Some (PBool False, drop 5 s)
          else scan_number s)"
| "decode_items 0 s acc = None"
| "decode_items (Suc n) s acc =
     (case decode_value n s of
        None \<Rightarrow> None
      | Some (v, r) \<Rightarrow>
          (case expect 44 (skip_ws r) of
             Some r' \<Rightarrow> decode_items n (skip_ws r') (acc @ [v])
           | None \<Rightarrow>
               (case expect 93 (skip_ws r) of
                  Some r' \<Rightarrow> Some (PList (acc @ [v]), r')
                | None \<Rightarrow> None)))"
| "decode_members 0 s acc = None"
| "decode_members (Suc n) s acc =
     (case expect 34 s of
        None \<Rightarrow> None
      | Some r \<Rightarrow>
          (case scan_string r [] of
             None \<Rightarrow> None
           | Some (k, r1) \<Rightarrow>
               (case expect 58 (skip_ws r1) of
                  None \<Rightarrow> None
                | Some r2 \<Rightarrow>
                    (case decode_value n (skip_ws r2) of
                       None \<Rightarrow> None
                     | Some (v, r3) \<Rightarrow>
                         (case expect 44 (skip_ws r3) of
                            Some r4 \<Rightarrow> decode_members n (skip_ws r4) (dict_set acc k v)
                          | None \<Rightarrow>
                              (case expect 125 (skip_ws r3) of
                                 Some r4 \<Rightarrow> Some (PDict (dict_set acc k v), r4)
                               | None \<Rightarrow> None))))))"

definition ref_json_loads :: "pystr \<Rightarrow> pyexc + pyval" where
  "ref_json_loads s =
     (case decode_value (2 * length s + 2) (skip_ws s) of
        None \<Rightarrow> Inl JSONDecodeError
      | Some (v, r) \<Rightarrow> if skip_ws r = [] then Inr v else Inl JSONDecodeError)"

definition ref_space :: "nat \<Rightarrow> bool" where
  "ref_space c =
     ((9 \<le> c \<and> c \<le> 13) \<or> (28 \<le> c \<and> c \<le> 32) \<or> c = 133 \<or> c = 160 \<or> c = 5760
      \<or> (8192 \<le> c \<and> c \<le> 8202) \<or> c = 8232 \<or> c = 8233 \<or> c = 8239 \<or> c = 8287 \<or> c = 12288)"

definition ref_alnum :: "nat \<Rightarrow> bool" where
  "ref_alnum c = ((48 \<le> c \<and> c \<le> 57) \<or> (65 \<le> c \<and> c \<le> 90) \<or> (97 \<le> c \<and> c \<le> 122))"

definition ref_lower :: "pystr \<Rightarrow> pystr" where
  "ref_lower s = map (\<lambda>c. if 65 \<le> c \<and> c \<le> 90 then c + 32 else c) s"

definition ref_fromisoformat :: "pystr \<Rightarrow> pydatetime option" where
  "ref_fromisoformat s =
     (if s = lit ''2023-11-14T20:13:20'' then Some (Naive 1699992800)
      else if s = lit ''2023-11-14T21:43:20+00:00'' then Some (Aware 1699998200)
      else None)"

definition py_ref :: pylib where
  "py_ref =
     \<lparr> re_space = ref_space, re_digit = ascii_digit, re_alnum = ref_alnum,
       str_lower = ref_lower, json_loads = ref_json_loads, md5_hexdigest = (\<lambda>s. s),
       from_timestamp = (\<lambda>t. Some t), from_isoformat = ref_fromisoformat,
       now_seconds = 1700000000 \<rparr>"

section \<open>core/processing/priority\_system.py\<close>

text \<open>
  A rule is a score and a list of conditions, all of which must hold. The rule table of
  \<open>_load_priority_rules\<close> uses three operators: \<open>equals\<close> and \<open>gte\<close> with a string
  value and \<open>contains_any\<close> with a list of strings, so a condition is one of these three.
  The keywords are Chinese words, written as code points.
\<close>

datatype cond =
    Equals pystr pystr
  | Gte pystr pystr
  | ContainsAny pystr "pystr list"

record priority_rule =
  rule_name :: pystr
  rule_score :: real
  rule_conditions :: "cond list"

definition load_priority_rules :: "priority_rule list" where
  "load_priority_rules =
     [\<lparr> rule_name = lit ''high_impact_short_term'', rule_score = 100,
        rule_conditions = [Equals (lit ''impact_level'') (lit ''high''),
                           Equals (lit ''time_horizon'') (lit ''short'')] \<rparr>,
      \<lparr> rule_name = lit ''high_impact_mid_term'', rule_score = 80,
        rule_conditions = [Equals (lit ''impact_level'') (lit ''high''),
                           Equals (lit ''time_horizon'') (lit ''mid'')] \<rparr>,
      \<lparr> rule_name = lit ''portfolio_risk_event'', rule_score = 90,
        rule_conditions = [ContainsAny (lit ''affected_assets'') [[25345, 20179, 26631, 30340]],
                           Gte (lit ''impact_level'') (lit ''medium'')] \<rparr>,
      \<lparr> rule_name = lit ''market_crisis'', rule_score = 95,
        rule_conditions = [ContainsAny (lit ''core_event'')
                             [[21361, 26426], [23849, 30424], [26292, 36300], [24656, 24908]]] \<rparr>,
      \<lparr> rule_name = lit ''policy_change'', rule_score = 85,
        rule_conditions = [ContainsAny (lit ''core_event'')
                             [[25919, 31574], [30417, 31649], [21033, 29575], [22830, 34892]]] \<rparr>,
      \<lparr> rule_name = lit ''earnings_surprise'', rule_score = 70,
        rule_conditions = [ContainsAny (lit ''core_event'')
                             [[36130, 25253], [30408, 21033], [33829, 25910]],
                           Gte (lit ''impact_level'') (lit ''medium'')] \<rparr>]"

text \<open>\<open>xs.index(v)\<close>: the position of the first element equal to \<open>v\<close>, or
  \<open>ValueError\<close>.\<close>

fun list_index :: "pyval list \<Rightarrow> pyval \<Rightarrow> pyexc + nat" where
  "list_index [] v = Inl ValueError"
| "list_index (x # xs) v =
     (if x = v then Inr 0
      else (case list_index xs v of Inl e \<Rightarrow> Inl e | Inr i \<Rightarrow> Inr (Suc i)))"

definition impact_levels :: "pyval list" where
  "impact_levels = [PStr (lit ''low''), PStr (lit ''medium''), PStr (lit ''high'')]"

text \<open>
  One condition of \<open>_matches_rule\<close>: \<open>Inr False\<close> is the \<open>return False\<close> of the loop,
  \<open>Inr True\<close> lets the loop go on. \<open>current_holdings\<close> is optional (\<open>None\<close> by
  default). A \<open>contains_any\<close> condition on a value that is neither a string nor a list
  checks nothing.
\<close>

fun matches_condition :: "pylib \<Rightarrow> pydict \<Rightarrow> pystr list option \<Rightarrow> cond \<Rightarrow> pyexc + bool" where
  "matches_condition L event holdings (Equals field v) =
     Inr (dict_get event field = PStr v)"
| "matches_condition L event holdings (Gte field v) =
     (case list_index impact_levels (dict_get event field) of
        Inl e \<Rightarrow> Inl e
      | Inr i \<Rightarrow>
          (case list_index impact_levels (PStr v) of
             Inl e \<Rightarrow> Inl e
           | Inr j \<Rightarrow> Inr (\<not> i < j)))"
| "matches_condition L event holdings (ContainsAny field vs) =
     (case dict_get event field of
        PStr s \<Rightarrow> Inr (list_ex (\<lambda>keyword. is_substr keyword (str_lower L s)) vs)
      | PList items \<Rightarrow>
          (case holdings of
             Some hs \<Rightarrow>
               if hs \<noteq> [] \<and> field = lit ''affected_assets''
               then Inr (list_ex (\<lambda>asset. asset \<in> set (map PStr hs)) items)
               else Inr (list_ex (\<lambda>item. item \<in> set (map PStr vs)) items)
           | None \<Rightarrow> Inr (list_ex (\<lambda>item. item \<in> set (map PStr vs)) items))
      | _ \<Rightarrow> Inr True)"

fun matches_rule :: "pylib \<Rightarrow> pydict \<Rightarrow> pystr list option \<Rightarrow> cond list \<Rightarrow> pyexc + bool" where
  "matches_rule L event holdings [] = Inr True"
| "matches_rule L event holdings (c # cs) =
     (case matches_condition L event holdings c of
        Inl e \<Rightarrow> Inl e
      | Inr ok \<Rightarrow> if ok then matches_rule L event holdings cs else Inr False)"

fun apply_priority_rules ::
  "pylib \<Rightarrow> priority_rule list \<Rightarrow> pydict \<Rightarrow> pystr list option \<Rightarrow> pyexc + real" where
  "apply_priority_rules L [] event holdings = Inr 0"
| "apply_priority_rules L (r # rs) event holdings =
     (case matches_rule L event holdings (rule_conditions r) of
        Inl e \<Rightarrow> Inl e
      | Inr m \<Rightarrow>
          (case apply_priority_rules L rs event holdings of
             Inl e \<Rightarrow> Inl e
           | Inr bonus \<Rightarrow> Inr ((if m then rule_score r else 0) + bonus)))"

text \<open>
  \<open>_calculate_time_penalty\<close>. A falsy timestamp (absent, \<open>None\<close>, empty, zero) gives
  1.0. A number goes to \<open>datetime.fromtimestamp\<close> (a boolean is an integer); anything
  else must have a \<open>replace\<close> method, so a string goes to \<open>datetime.fromisoformat\<close> with
  every \<open>Z\<close> replaced by \<open>+00:00\<close>. The result is subtracted from the naive
  \<open>datetime.now()\<close>. Any exception on the way, the \<open>TypeError\<close> of an aware result among
  them, gives 0.7.
\<close>

definition zulu_to_offset :: "pystr \<Rightarrow> pystr" where
  "zulu_to_offset s = str_replace (lit ''Z'') (lit ''+00:00'') s"

definition parse_event_time :: "pylib \<Rightarrow> pyval \<Rightarrow> pydatetime option" where
  "parse_event_time L event_time =
     (case event_time of
        PInt i \<Rightarrow> map_option Naive (from_timestamp L (real_of_int i))
      | PFloat r \<Rightarrow> map_option Naive (from_timestamp L r)
      | PBool b \<Rightarrow> map_option Naive (from_timestamp L (if b then 1 else 0))
      | PStr s \<Rightarrow> from_isoformat L (zulu_to_offset s)
      | _ \<Rightarrow> None)"

definition hours_since :: "pylib \<Rightarrow> pydatetime \<Rightarrow> real option" where
  "hours_since L event_dt =
     (case event_dt of
        Naive x \<Rightarrow> Some ((now_seconds L - x) / 3600)
      | Aware x \<Rightarrow> None)"

definition calculate_time_penalty :: "pylib \<Rightarrow> pydict \<Rightarrow> real" where
  "calculate_time_penalty L event =
     (let event_time = dict_get event (lit ''timestamp'')
      in if \<not> truthy event_time then 1
         else
           (case parse_event_time L event_time of
              None \<Rightarrow> 7 / 10
            | Some event_dt \<Rightarrow>
                (case hours_since L event_dt of
                   None \<Rightarrow> 7 / 10
                 | Some time_diff \<Rightarrow>
                     if time_diff \<le> 1 then 1
                     else if time_diff \<le> 24 then 8 / 10
                     else if time_diff \<le> 72 then 5 / 10
                     else 3 / 10)))"

text \<open>\<open>table.get(key, default)\<close> on a table with string keys: a list or a dictionary as
  key is unhashable.\<close>

definition table_get :: "(pystr \<times> real) list \<Rightarrow> pyval \<Rightarrow> real \<Rightarrow> pyexc + real" where
  "table_get table key dflt =
     (case key of
        PStr s \<Rightarrow> Inr (case map_of table s of Some w \<Rightarrow> w | None \<Rightarrow> dflt)
      | PList xs \<Rightarrow> Inl TypeError
      | PDict d \<Rightarrow> Inl TypeError
      | _ \<Rightarrow> Inr dflt)"

definition impact_scores :: "(pystr \<times> real) list" where
  "impact_scores = [(lit ''low'', 10), (lit ''medium'', 50), (lit ''high'', 100)]"

definition time_scores :: "(pystr \<times> real) list" where
  "time_scores = [(lit ''short'', 30), (lit ''mid'', 20), (lit ''long'', 10)]"

text \<open>
  \<open>calculate_priority_score\<close>. The confidence multiplies the base score: a number
  (a boolean counts as 0 or 1) gives a number; a string or a list is repeated by the
  multiplication and the later addition of the bonus raises \<open>TypeError\<close>; \<open>None\<close> and
  a dictionary raise at once. Numbers are exact here: the rounding of floats, \<open>nan\<close>, and
  the \<open>OverflowError\<close> of an integer confidence too large for a float are not modelled.
\<close>

definition calculate_priority_score ::
  "pylib \<Rightarrow> pydict \<Rightarrow> pystr list option \<Rightarrow> pyexc + real" where
  "calculate_priority_score L event holdings =
     (case table_get impact_scores (dict_get_or event (lit ''impact_level'') (PStr (lit ''low''))) 10 of
        Inl e \<Rightarrow> Inl e
      | Inr impact \<Rightarrow>
     (case table_get time_scores (dict_get_or event (lit ''time_horizon'') (PStr (lit ''mid''))) 15 of
        Inl e \<Rightarrow> Inl e
      | Inr horizon \<Rightarrow>
     (let base_score = impact + horizon;
          confidence = dict_get_or event (lit ''confidence'') (PFloat (5 / 10));
          scaled =
            (case confidence of
               PInt i \<Rightarrow> Inr (Some (base_score * real_of_int i))
             | PFloat c \<Rightarrow> Inr (Some (base_score * c))
             | PBool b \<Rightarrow> Inr (Some (base_score * (if b then 1 else 0)))
             | PStr s \<Rightarrow> Inr None
             | PList xs \<Rightarrow> Inr None
             | PNone \<Rightarrow> Inl TypeError
             | PDict d \<Rightarrow> Inl TypeError)
      in case scaled of
           Inl e \<Rightarrow> Inl e
         | Inr sc \<Rightarrow>
             (case apply_priority_rules L load_priority_rules event holdings of
                Inl e \<Rightarrow> Inl e
              | Inr rule_bonus \<Rightarrow>
                  (case sc of
                     None \<Rightarrow> Inl TypeError
                   | Some b \<Rightarrow>
                       Inr (max 0 (min 100 ((b + rule_bonus) * calculate_time_penalty L event))))))))"

text \<open>
  The score as the specification words it: weights by impact level and time horizon,
  times the confidence, plus the bonus, times the decay, clamped to 0..100.
\<close>

datatype impact = Low | Medium | High

datatype horizon = Short | Mid | Long

fun impact_name :: "impact \<Rightarrow> pystr" where
  "impact_name Low = lit ''low''"
| "impact_name Medium = lit ''medium''"
| "impact_name High = lit ''high''"

fun horizon_name :: "horizon \<Rightarrow> pystr" where
  "horizon_name Short = lit ''short''"
| "horizon_name Mid = lit ''mid''"
| "horizon_name Long = lit ''long''"

fun impactWeight :: "impact \<Rightarrow> real" where
  "impactWeight Low = 10"
| "impactWeight Medium = 50"
| "impactWeight High = 100"

fun timeWeight :: "horizon \<Rightarrow> real" where
  "timeWeight Short = 30"
| "timeWeight Mid = 20"
| "timeWeight Long = 10"

datatype stamp = Absent | Elapsed real | Unreadable



text \<open>
  How the timestamp of an event reads. It is absent when the event has none, or has
  \<open>None\<close>, \<open>False\<close>, zero, or an empty string, list or dictionary. It is an elapsed
  time when it is a number that is a timestamp (\<open>True\<close> is the number 1), or a string
  that, with every \<open>Z\<close> replaced by \<open>+00:00\<close>, is an ISO time without UTC offset; the
  elapsed hours are then the distance to the clock. It is unreadable when the conversion
  of the number or of the string raises, and when it is a list or a dictionary that is
  not empty. A string that is a time with a UTC offset reads as none of these.
\<close>

fun reads_as :: "pylib \<Rightarrow> pyval option \<Rightarrow> stamp \<Rightarrow> bool" where
  "reads_as L v Absent \<longleftrightarrow>
     v = None \<or> v = Some PNone \<or> v = Some (PBool False) \<or> v = Some (PInt 0)
     \<or> v = Some (PFloat 0) \<or> v = Some (PStr []) \<or> v = Some (PList []) \<or> v = Some (PDict [])"
| "reads_as L v (Elapsed h) \<longleftrightarrow>
     (\<exists>x. h = (now_seconds L - x) / 3600
        \<and> ((\<exists>s. v = Some (PStr s) \<and> s \<noteq> [] \<and> from_isoformat L (zulu_to_offset s) = Some (Naive x))
           \<or> (\<exists>i. v = Some (PInt i) \<and> i \<noteq> 0 \<and> from_timestamp L (real_of_int i) = Some x)
           \<or> (\<exists>r. v = Some (PFloat r) \<and> r \<noteq> 0 \<and> from_timestamp L r = Some x)
           \<or> (v = Some (PBool True) \<and> from_timestamp L 1 = Some x)))"
| "reads_as L v Unreadable \<longleftrightarrow>
     (\<exists>s. v = Some (PStr s) \<and> s \<noteq> [] \<and> from_isoformat L (zulu_to_offset s) = None)
     \<or> (\<exists>i. v = Some (PInt i) \<and> i \<noteq> 0 \<and> from_timestamp L (real_of_int i) = None)
     \<or> (\<exists>r. v = Some (PFloat r) \<and> r \<noteq> 0 \<and> from_timestamp L r = None)
     \<or> (v = Some (PBool True) \<and> from_timestamp L 1 = None)
     \<or> (\<exists>xs. v = Some (PList xs) \<and> xs \<noteq> [])
     \<or> (\<exists>d. v = Some (PDict d) \<and> d \<noteq> [])"

text \<open>
  The rules that match, as the specification words them: a rule matches when all its
  conditions hold; an equality condition holds when the field is that string; an ordinal
  condition holds when the level of the field is at least the given level in
  low < medium < high; a containment condition on a text field holds when the text, in
  lower case, contains one of the keywords, and on a list field when the list shares an
  element with the current holdings (for \<open>affected_assets\<close>, when there are holdings) or
  else with the values the rule lists. The bonus is the sum of the scores of the rules
  that match.
\<close>

definition level_rank :: "pystr \<Rightarrow> nat option" where
  "level_rank s =
     (if s = lit ''low'' then Some 0
      else if s = lit ''medium'' then Some 1
      else if s = lit ''high'' then Some 2
      else None)"

fun condition_holds :: "pylib \<Rightarrow> pydict \<Rightarrow> pystr list \<Rightarrow> cond \<Rightarrow> bool" where
  "condition_holds L event holdings (Equals field v) \<longleftrightarrow> map_of event field = Some (PStr v)"
| "condition_holds L event holdings (Gte field v) \<longleftrightarrow>
     (case map_of event field of
        Some (PStr s) \<Rightarrow>
          (case (level_rank s, level_rank v) of
             (Some a, Some b) \<Rightarrow> b \<le> a
           | _ \<Rightarrow> False)
      | _ \<Rightarrow> False)"
| "condition_holds L event holdings (ContainsAny field vs) \<longleftrightarrow>
     (case map_of event field of
        Some (PStr text) \<Rightarrow> list_ex (\<lambda>keyword. is_substr keyword (str_lower L text)) vs
      | Some (PList items) \<Rightarrow>
          list_ex (\<lambda>x. PStr x \<in> set items)
            (if holdings \<noteq> [] \<and> field = lit ''affected_assets'' then holdings else vs)
      | _ \<Rightarrow> False)"

definition matching_rules :: "pylib \<Rightarrow> pydict \<Rightarrow> pystr list \<Rightarrow> priority_rule list" where
  "matching_rules L event holdings =
     filter (\<lambda>r. list_all (condition_holds L event holdings) (rule_conditions r))
       load_priority_rules"

definition rule_bonus :: "pylib \<Rightarrow> pydict \<Rightarrow> pystr list \<Rightarrow> real" where
  "rule_bonus L event holdings = sum_list (map rule_score (matching_rules L event holdings))"


text \<open>The field a condition reads.\<close>

fun cond_field :: "cond \<Rightarrow> pystr" where
  "cond_field (Equals f v) = f"
| "cond_field (Gte f v) = f"
| "cond_field (ContainsAny f vs) = f"

text \<open>Sample events: a medium-impact, long-horizon one that no rule matches, two hours
  old; a high-impact, short-horizon one; a low-impact one on an interest rate (U+5229,
  U+7387), two hours old, which the policy rule matches; the calm one stamped with the
  number 0; and the calm one stamped half an hour ago in UTC.\<close>

definition calm_event :: pydict where
  "calm_event =
     [(lit ''core_event'', PStr (lit ''quiet trading day'')),
      (lit ''impact_level'', PStr (lit ''medium'')),
      (lit ''time_horizon'', PStr (lit ''long'')),
      (lit ''affected_assets'', PList []),
      (lit ''confidence'', PFloat (1 / 2)),
      (lit ''timestamp'', PStr (lit ''2023-11-14T20:13:20''))]"



definition zulu_event :: pydict where
  "zulu_event = dict_set calm_event (lit ''timestamp'') (PStr (lit ''2023-11-14T21:43:20Z''))"

definition hot_event :: pydict where
  "hot_event =
     [(lit ''core_event'', PStr (lit ''rate decision'')),
      (lit ''impact_level'', PStr (lit ''high'')),
      (lit ''time_horizon'', PStr (lit ''short'')),
      (lit ''affected_assets'', PList [])]"

section \<open>core/quality/quality\_assurance.py\<close>

text \<open>
  An error message of the quality gate, with its parts kept apart: a missing required
  field, a field whose validator fails (with the offending value), and a failed content
  validator. \<open>validate_event_extraction\<close> reports, per invalid event, its 1-based
  position and its messages.
\<close>

datatype qerror = MissingField pystr | InvalidField pystr pyval | ContentInvalid

record validation_rules =
  required_fields :: "pystr list"
  field_validators :: "(pystr \<times> (pyval \<Rightarrow> pyexc + bool)) list"
  content_validators :: "(pydict \<Rightarrow> pyexc + bool) list"

text \<open>\<open>len(v)\<close>, and the chained comparison \<open>0 <= x <= 1\<close>, which raises
  \<open>TypeError\<close> on a value that is not a number.\<close>

definition py_len :: "pyval \<Rightarrow> pyexc + nat" where
  "py_len v =
     (case v of
        PStr s \<Rightarrow> Inr (length s)
      | PList xs \<Rightarrow> Inr (length xs)
      | PDict d \<Rightarrow> Inr (length d)
      | _ \<Rightarrow> Inl TypeError)"

definition in_unit_interval :: "pyval \<Rightarrow> pyexc + bool" where
  "in_unit_interval x =
     (case x of
        PInt i \<Rightarrow> Inr (0 \<le> i \<and> i \<le> 1)
      | PFloat r \<Rightarrow> Inr (0 \<le> r \<and> r \<le> 1)
      | PBool b \<Rightarrow> Inr True
      | _ \<Rightarrow> Inl TypeError)"

definition core_event_longer_than :: "nat \<Rightarrow> pydict \<Rightarrow> pyexc + bool" where
  "core_event_longer_than n event =
     (case py_len (dict_get_or event (lit ''core_event'') (PStr [])) of
        Inl e \<Rightarrow> Inl e
      | Inr l \<Rightarrow> Inr (n < l))"

definition core_event_shorter_than :: "nat \<Rightarrow> pydict \<Rightarrow> pyexc + bool" where
  "core_event_shorter_than n event =
     (case py_len (dict_get_or event (lit ''core_event'') (PStr [])) of
        Inl e \<Rightarrow> Inl e
      | Inr l \<Rightarrow> Inr (l < n))"

text \<open>The rules \<open>"event_extraction"\<close> of \<open>_load_validation_rules\<close>.\<close>

definition event_extraction_rules :: validation_rules where
  "event_extraction_rules =
     \<lparr> required_fields = [lit ''core_event'', lit ''impact_level'', lit ''time_horizon''],
       field_validators =
         [(lit ''impact_level'',
             \<lambda>x. Inr (x \<in> set [PStr (lit ''low''), PStr (lit ''medium''), PStr (lit ''high'')])),
          (lit ''time_horizon'',
             \<lambda>x. Inr (x \<in> set [PStr (lit ''short''), PStr (lit ''mid''), PStr (lit ''long'')])),
          (lit ''confidence'', in_unit_interval)],
       content_validators = [core_event_longer_than 5, core_event_shorter_than 500] \<rparr>"

text \<open>The three loops of \<open>_validate_single_event\<close>; an exception of a validator leaves
  the function.\<close>

definition missing_field_errors :: "pystr list \<Rightarrow> pydict \<Rightarrow> qerror list" where
  "missing_field_errors required event =
     map MissingField (filter (\<lambda>field. \<not> dict_has event field) required)"

fun field_errors :: "(pystr \<times> (pyval \<Rightarrow> pyexc + bool)) list \<Rightarrow> pydict \<Rightarrow> pyexc + qerror list" where
  "field_errors [] event = Inr []"
| "field_errors ((field, validator) # rest) event =
     (if dict_has event field then
        (case validator (dict_get event field) of
           Inl e \<Rightarrow> Inl e
         | Inr ok \<Rightarrow>
             (case field_errors rest event of
                Inl e \<Rightarrow> Inl e
              | Inr errs \<Rightarrow>
                  Inr ((if ok then [] else [InvalidField field (dict_get event field)]) @ errs)))
      else field_errors rest event)"

fun content_errors :: "(pydict \<Rightarrow> pyexc + bool) list \<Rightarrow> pydict \<Rightarrow> pyexc + qerror list" where
  "content_errors [] event = Inr []"
| "content_errors (validator # rest) event =
     (case validator event of
        Inl e \<Rightarrow> Inl e
      | Inr ok \<Rightarrow>
          (case content_errors rest event of
             Inl e \<Rightarrow> Inl e
           | Inr errs \<Rightarrow> Inr ((if ok then [] else [ContentInvalid]) @ errs)))"

definition validate_single_event :: "pydict \<Rightarrow> validation_rules \<Rightarrow> pyexc + qerror list" where
  "validate_single_event event rules =
     (case field_errors (field_validators rules) event of
        Inl e \<Rightarrow> Inl e
      | Inr ferrs \<Rightarrow>
          (case content_errors (content_validators rules) event of
             Inl e \<Rightarrow> Inl e
           | Inr cerrs \<Rightarrow>
               Inr (missing_field_errors (required_fields rules) event @ ferrs @ cerrs)))"

text \<open>
  \<open>_record_metric\<close> appends the value to the history of the metric and keeps the last
  100 entries. The time of recording, read from the clock, is left out.
\<close>

type_synonym metrics = "pystr \<rightharpoonup> real list"

definition record_metric :: "metrics \<Rightarrow> pystr \<Rightarrow> real \<Rightarrow> metrics" where
  "record_metric m name v =
     (let history = (case m name of None \<Rightarrow> [] | Some h \<Rightarrow> h) @ [v]
      in m(name \<mapsto> (if 100 < length history then drop (length history - 100) history
                     else history)))"

text \<open>The loop of \<open>validate_event_extraction\<close> over \<open>enumerate(events)\<close>: the number
  of valid events and the reported errors.\<close>

fun validate_events :: "nat \<Rightarrow> pydict list \<Rightarrow> pyexc + (nat \<times> (nat \<times> qerror list) list)" where
  "validate_events i [] = Inr (0, [])"
| "validate_events i (event # rest) =
     (case validate_single_event event event_extraction_rules of
        Inl e \<Rightarrow> Inl e
      | Inr event_errors \<Rightarrow>
          (case validate_events (i + 1) rest of
             Inl e \<Rightarrow> Inl e
           | Inr (valid_count, errors) \<Rightarrow>
               if event_errors = [] then Inr (valid_count + 1, errors)
               else Inr (valid_count, (i + 1, event_errors) # errors)))"

definition validate_event_extraction ::
  "metrics \<Rightarrow> pydict list \<Rightarrow> pyexc + (bool \<times> (nat \<times> qerror list) list \<times> metrics)" where
  "validate_event_extraction m events =
     (case validate_events 0 events of
        Inl e \<Rightarrow> Inl e
      | Inr (valid_count, errors) \<Rightarrow>
          (let validity_ratio =
                 (if events \<noteq> [] then real valid_count / real (length events) else 0);
               m' = record_metric m (lit ''event_extraction_quality'') validity_ratio;
               is_valid = (8 / 10 \<le> validity_ratio)
           in Inr (is_valid, errors, m')))"

definition five_char_event :: pydict where
  "five_char_event =
     [(lit ''core_event'', PStr (lit ''abcde'')),
      (lit ''impact_level'', PStr (lit ''low'')),
      (lit ''time_horizon'', PStr (lit ''mid'')),
      (lit ''confidence'', PFloat (1 / 2))]"

section \<open>core/cache/smart\_cache.py\<close>

text \<open>
  \<open>SmartCache\<close> wraps a \<open>diskcache.Cache\<close>. That library is not code of the
  repository; its store is modelled by what its documentation says of the two calls the
  program makes: \<open>set(key, value, expire=ttl)\<close> stores the value with the expiry time
  \<open>now + ttl\<close>, and \<open>get(key)\<close> returns the stored value while the expiry time is still
  ahead, and \<open>None\<close> otherwise. Time is in seconds.
\<close>

type_synonym disk_store = "pystr \<rightharpoonup> (pyval \<times> real)"

definition disk_get :: "disk_store \<Rightarrow> real \<Rightarrow> pystr \<Rightarrow> pyval" where
  "disk_get st now key =
     (case st key of
        None \<Rightarrow> PNone
      | Some (v, expire_time) \<Rightarrow> if now < expire_time then v else PNone)"

definition disk_set :: "disk_store \<Rightarrow> real \<Rightarrow> pystr \<Rightarrow> pyval \<Rightarrow> int \<Rightarrow> disk_store" where
  "disk_set st now key v expire = st(key \<mapsto> (v, now + real_of_int expire))"

record smart_cache =
  cache_store :: disk_store
  default_ttl :: int
  stat_hits :: nat
  stat_misses :: nat
  stat_sets :: nat

text \<open>\<open>get\<close>: a stored \<open>None\<close> and a missing key are the same miss.\<close>

definition cache_get :: "smart_cache \<Rightarrow> real \<Rightarrow> pystr \<Rightarrow> pyval \<times> smart_cache" where
  "cache_get c now key =
     (let result = disk_get (cache_store c) now key
      in if result \<noteq> PNone then (result, c\<lparr>stat_hits := stat_hits c + 1\<rparr>)
         else (result, c\<lparr>stat_misses := stat_misses c + 1\<rparr>))"

text \<open>\<open>ttl or self.default_ttl\<close>: an absent or zero \<open>ttl\<close> gives the default.\<close>

definition effective_ttl :: "smart_cache \<Rightarrow> int option \<Rightarrow> int" where
  "effective_ttl c ttl =
     (case ttl of None \<Rightarrow> default_ttl c | Some t \<Rightarrow> if t = 0 then default_ttl c else t)"

definition cache_set :: "smart_cache \<Rightarrow> real \<Rightarrow> pystr \<Rightarrow> pyval \<Rightarrow> int option \<Rightarrow> smart_cache" where
  "cache_set c now key v ttl =
     c\<lparr>cache_store := disk_set (cache_store c) now key v (effective_ttl c ttl),
       stat_sets := stat_sets c + 1\<rparr>"

text \<open>
  \<open>get_or_compute\<close>. The compute function is any callable: \<open>compute n\<close> is what its
  call returns or raises when it has been called \<open>n\<close> times before, and the number of
  calls made so far is threaded through. The lookup happens at time \<open>now\<close>, the store,
  after the computation, at time \<open>later\<close>. An exception of the compute function leaves
  the function and nothing is stored.
\<close>

definition get_or_compute ::
  "smart_cache \<Rightarrow> real \<Rightarrow> real \<Rightarrow> pystr \<Rightarrow> (nat \<Rightarrow> pyexc + pyval) \<Rightarrow> int option \<Rightarrow> nat
     \<Rightarrow> (pyexc + pyval) \<times> smart_cache \<times> nat" where
  "get_or_compute c now later key compute ttl calls =
     (case cache_get c now key of
        (cached, c1) \<Rightarrow>
          if cached \<noteq> PNone then (Inr cached, c1, calls)
          else
            (case compute calls of
               Inl e \<Rightarrow> (Inl e, c1, calls + 1)
             | Inr result \<Rightarrow> (Inr result, cache_set c1 later key result ttl, calls + 1)))"

text \<open>Two invocations with the same key and compute function, starting with no call made:
  the two outcomes and the number of calls of the compute function.\<close>

definition get_or_compute_twice ::
  "smart_cache \<Rightarrow> pystr \<Rightarrow> (nat \<Rightarrow> pyexc + pyval) \<Rightarrow> int option
     \<Rightarrow> real \<Rightarrow> real \<Rightarrow> real \<Rightarrow> real \<Rightarrow> (pyexc + pyval) \<times> (pyexc + pyval) \<times> nat" where
  "get_or_compute_twice c key compute ttl t1 t1' t2 t2' =
     (case get_or_compute c t1 t1' key compute ttl 0 of
        (r1, c1, n1) \<Rightarrow>
          (case get_or_compute c1 t2 t2' key compute ttl n1 of
             (r2, c2, n2) \<Rightarrow> (r1, r2, n2)))"

definition empty_cache :: smart_cache where
  "empty_cache =
     \<lparr> cache_store = Map.empty, default_ttl = 3600, stat_hits = 0, stat_misses = 0,
       stat_sets = 0 \<rparr>"

section \<open>main.py: loading and deduplicating news\<close>

text \<open>
  A news item as the loader builds it from a line of the news file: a dictionary with
  string fields and the line number. \<open>None\<close> is a missing key.
\<close>

record news_item =
  news_id :: "pystr option"
  news_title :: "pystr option"
  news_content :: "pystr option"
  news_source :: "pystr option"
  news_timestamp :: "pystr option"
  news_category :: "pystr option"
  news_source_file :: "pystr option"
  news_source_line :: "int option"

text \<open>\<open>news.get(key, default)\<close> on such a field.\<close>

definition field_or :: "'a option \<Rightarrow> 'a \<Rightarrow> 'a" where
  "field_or field dflt = (case field of None \<Rightarrow> dflt | Some v \<Rightarrow> v)"

definition get_content_hash :: "pylib \<Rightarrow> pystr \<Rightarrow> pystr" where
  "get_content_hash L content = md5_hexdigest L content"

text \<open>The content fingerprint of an item: \<open>_get_content_hash(news.get('content', ''))\<close>.\<close>

definition fingerprint :: "pylib \<Rightarrow> news_item \<Rightarrow> pystr" where
  "fingerprint L news = get_content_hash L (field_or (news_content news) [])"

text \<open>
  The loop of \<open>_load_news_batch\<close> over the items the loader yields (the cache lookup
  before it and the cache store after it are left out: this is the function with
  \<open>use_cache=False\<close>). The state is the five local variables of the loop. \<open>size\<close> is
  any integer, and it is compared with the number of collected items only after an item
  has been collected; it is written \<open>n\<close> below.
\<close>

record scan_state =
  all_news :: "news_item list"
  news_count :: nat
  duplicate_count :: nat
  processed_ids :: "pystr set"
  processed_hashes :: "pystr set"

definition initial_scan :: scan_state where
  "initial_scan =
     \<lparr> all_news = [], news_count = 0, duplicate_count = 0, processed_ids = {},
       processed_hashes = {} \<rparr>"

definition id_seen :: "pystr option \<Rightarrow> pystr set \<Rightarrow> bool" where
  "id_seen nid ids = (case nid of None \<Rightarrow> False | Some i \<Rightarrow> i \<noteq> [] \<and> i \<in> ids)"

definition add_id :: "pystr option \<Rightarrow> pystr set \<Rightarrow> pystr set" where
  "add_id nid ids = (case nid of None \<Rightarrow> ids | Some i \<Rightarrow> if i \<noteq> [] then insert i ids else ids)"

fun scan_news :: "pylib \<Rightarrow> int \<Rightarrow> news_item list \<Rightarrow> scan_state \<Rightarrow> scan_state" where
  "scan_news L n [] st = st"
| "scan_news L n (news # rest) st =
     (let st1 = st\<lparr>news_count := news_count st + 1\<rparr>;
          content_hash = fingerprint L news
      in if id_seen (news_id news) (processed_ids st1)
         then scan_news L n rest (st1\<lparr>duplicate_count := duplicate_count st1 + 1\<rparr>)
         else if content_hash \<in> processed_hashes st1
         then scan_news L n rest (st1\<lparr>duplicate_count := duplicate_count st1 + 1\<rparr>)
         else
           (let st2 = st1\<lparr>all_news := all_news st1 @ [news],
                           processed_ids := add_id (news_id news) (processed_ids st1),
                           processed_hashes := insert content_hash (processed_hashes st1)\<rparr>
            in if n \<le> int (length (all_news st2)) then st2
               else scan_news L n rest st2))"

definition load_news_batch :: "pylib \<Rightarrow> int \<Rightarrow> news_item list \<Rightarrow> news_item list" where
  "load_news_batch L n source = all_news (scan_news L n source initial_scan)"

text \<open>
  The deduplication as the specification words it: an item is a duplicate of a kept item
  when its non-empty id is the id of that item or their content fingerprints are equal,
  and \<open>keep_first\<close> goes through a sequence keeping every item that duplicates no item
  kept before it.
\<close>

definition duplicate_of :: "pylib \<Rightarrow> news_item \<Rightarrow> news_item \<Rightarrow> bool" where
  "duplicate_of L kept x =
     ((case news_id x of None \<Rightarrow> False | Some i \<Rightarrow> i \<noteq> [] \<and> news_id kept = Some i)
      \<or> fingerprint L x = fingerprint L kept)"

fun keep_first :: "pylib \<Rightarrow> news_item list \<Rightarrow> news_item list \<Rightarrow> news_item list" where
  "keep_first L kept [] = kept"
| "keep_first L kept (x # xs) =
     (if list_ex (\<lambda>k. duplicate_of L k x) kept then keep_first L kept xs
      else keep_first L (kept @ [x]) xs)"

definition sample_news :: news_item where
  "sample_news =
     \<lparr> news_id = Some (lit ''4422906''), news_title = None,
       news_content = Some (lit ''Chip maker shares rise 5.1 percent''),
       news_source = None, news_timestamp = Some (lit ''2025-10-08 22:46''),
       news_category = None, news_source_file = Some (lit ''news.txt''),
       news_source_line = Some 1 \<rparr>"

definition load_news_scan :: "pylib \<Rightarrow> int \<Rightarrow> news_item list \<Rightarrow> scan_state" where
  "load_news_scan L n source = scan_news L n source initial_scan"

text \<open>The invariant of the loop: the two sets hold the non-empty ids and the
  fingerprints of the items collected so far.\<close>

definition scan_inv :: "pylib \<Rightarrow> scan_state \<Rightarrow> bool" where
  "scan_inv L st \<longleftrightarrow>
     processed_ids st = {i. i \<noteq> [] \<and> (\<exists>k \<in> set (all_news st). news_id k = Some i)}
   \<and> processed_hashes st = fingerprint L ` set (all_news st)"

text \<open>A feed of four items: the second repeats the content of the first under another
  id.\<close>

definition other_news :: news_item where
  "other_news =
     sample_news\<lparr> news_id := Some (lit ''4422907''),
                  news_content := Some (lit ''Central bank hints at rate cut'') \<rparr>"

definition sample_feed :: "news_item list" where
  "sample_feed =
     [sample_news,
      sample_news\<lparr> news_id := Some (lit ''4422999'') \<rparr>,
      other_news,
      sample_news\<lparr> news_id := None, news_content := Some (lit ''Oil above 85 dollars'') \<rparr>]"

section \<open>core/agents/event\_extractor.py\<close>

text \<open>
  The oracle is \<open>llm_call\<close>: it takes a prompt and returns text or raises, and it may
  answer the same prompt differently each time (it has a cache, and a model behind it).
  It is a parameter \<open>llm\<close> with a state \<open>'o\<close> of its own that every call may change.

  The fixed text of the prompt templates is Chinese; the pieces between the
  interpolated fields are written as code points.
\<close>

type_synonym 'o llm_oracle = "'o \<Rightarrow> pystr \<Rightarrow> (pyexc + pystr) \<times> 'o"

definition single_prompt_head :: pystr where
  "single_prompt_head =
     [10, 35831, 20998, 26512, 20197, 19979, 26032, 38395, 20869, 23481, 65292, 25552,
      21462, 25237, 36164, 30456, 20851, 20107, 20214, 65306, 10, 10, 26631, 39064,
      65306]"

definition single_prompt_content :: pystr where
  "single_prompt_content =
     [10, 20869, 23481, 65306]"

definition single_prompt_source :: pystr where
  "single_prompt_source =
     [10, 26469, 28304, 65306]"

definition single_prompt_time :: pystr where
  "single_prompt_time =
     [10, 26102, 38388, 65306]"

definition single_prompt_tail :: pystr where
  "single_prompt_tail =
     [10, 10, 35831, 25353, 20197, 19979, 74, 83, 79, 78, 26684, 24335, 36755, 20986,
      65306, 10, 123, 10, 32, 32, 32, 32, 34, 99, 111, 114, 101, 95, 101, 118, 101, 110,
      116, 34, 58, 32, 34, 29992, 19968, 21477, 35805, 24635, 32467, 26680, 24515,
      20107, 20214, 34, 44, 10, 32, 32, 32, 32, 34, 105, 109, 112, 97, 99, 116, 95, 108,
      101, 118, 101, 108, 34, 58, 32, 34, 104, 105, 103, 104, 47, 109, 101, 100, 105,
      117, 109, 47, 108, 111, 119, 34, 44, 10, 32, 32, 32, 32, 34, 116, 105, 109, 101,
      95, 104, 111, 114, 105, 122, 111, 110, 34, 58, 32, 34, 115, 104, 111, 114, 116,
      47, 109, 105, 100, 47, 108, 111, 110, 103, 34, 44, 10, 32, 32, 32, 32, 34, 97,
      102, 102, 101, 99, 116, 101, 100, 95, 97, 115, 115, 101, 116, 115, 34, 58, 32, 91,
      34, 30456, 20851, 30340, 32929, 31080, 12289, 20538, 21048, 12289, 21830, 21697,
      25110, 36135, 24065, 34, 93, 44, 10, 32, 32, 32, 32, 34, 105, 110, 118, 101, 115,
      116, 109, 101, 110, 116, 95, 105, 109, 112, 108, 105, 99, 97, 116, 105, 111, 110,
      34, 58, 32, 34, 31616, 35201, 35828, 26126, 23545, 25237, 36164, 30340, 24433,
      21709, 34, 44, 10, 32, 32, 32, 32, 34, 99, 111, 110, 102, 105, 100, 101, 110, 99,
      101, 34, 58, 32, 48, 46, 48, 45, 49, 46, 48, 10, 125, 10, 10, 27880, 24847, 65306,
      21482, 36820, 22238, 74, 83, 79, 78, 26684, 24335, 65292, 19981, 35201, 20854,
      20182, 20869, 23481, 12290, 10]"

definition batch_prompt_head :: pystr where
  "batch_prompt_head =
     [10, 32, 32, 32, 32, 32, 32, 32, 32, 35831, 25209, 37327, 20998, 26512, 20197,
      19979, 22810, 26465, 26032, 38395, 65292, 25552, 21462, 23545, 25237, 36164,
      20915, 31574, 26377, 24433, 21709, 30340, 20107, 20214, 65306, 10, 10, 32, 32, 32,
      32, 32, 32, 32, 32]"

definition batch_prompt_tail :: pystr where
  "batch_prompt_tail =
     [10, 10, 32, 32, 32, 32, 32, 32, 32, 32, 35831, 20026, 27599, 26465, 26032, 38395,
      25552, 21462, 25237, 36164, 30456, 20851, 20107, 20214, 65292, 24182, 25353,
      20197, 19979, 74, 83, 79, 78, 26684, 24335, 36755, 20986, 65306, 10, 10, 32, 32,
      32, 32, 32, 32, 32, 32, 123, 10, 32, 32, 32, 32, 32, 32, 32, 32, 32, 32, 34, 98,
      97, 116, 99, 104, 95, 101, 118, 101, 110, 116, 115, 34, 58, 32, 91, 10, 32, 32,
      32, 32, 32, 32, 32, 32, 32, 32, 32, 32, 123, 10, 32, 32, 32, 32, 32, 32, 32, 32,
      32, 32, 32, 32, 32, 32, 34, 110, 101, 119, 115, 95, 105, 110, 100, 101, 120, 34,
      58, 32, 49, 44, 10, 32, 32, 32, 32, 32, 32, 32, 32, 32, 32, 32, 32, 32, 32, 34,
      99, 111, 114, 101, 95, 101, 118, 101, 110, 116, 34, 58, 32, 34, 20107, 20214,
      25551, 36848, 34, 44, 10, 32, 32, 32, 32, 32, 32, 32, 32, 32, 32, 32, 32, 32, 32,
      34, 105, 109, 112, 97, 99, 116, 95, 108, 101, 118, 101, 108, 34, 58, 32, 34, 104,
      105, 103, 104, 47, 109, 101, 100, 105, 117, 109, 47, 108, 111, 119, 34, 44, 10,
      32, 32, 32, 32, 32, 32, 32, 32, 32, 32, 32, 32, 32, 32, 34, 116, 105, 109, 101,
      95, 104, 111, 114, 105, 122, 111, 110, 34, 58, 32, 34, 115, 104, 111, 114, 116,
      47, 109, 105, 100, 47, 108, 111, 110, 103, 34, 44, 10, 32, 32, 32, 32, 32, 32, 32,
      32, 32, 32, 32, 32, 32, 32, 34, 97, 102, 102, 101, 99, 116, 101, 100, 95, 97, 115,
      115, 101, 116, 115, 34, 58, 32, 91, 34, 26631, 30340, 49, 34, 44, 32, 34, 26631,
      30340, 50, 34, 93, 44, 10, 32, 32, 32, 32, 32, 32, 32, 32, 32, 32, 32, 32, 32, 32,
      34, 76, 97, 98, 101, 108, 34, 65306, 34, 26631, 27880, 28041, 21450, 65306, 23439,
      35266, 32463, 27982, 25351, 26631, 47, 25919, 31574, 21464, 21160, 47, 34892,
      19994, 39072, 35206, 20107, 20214, 47, 22269, 38469, 20851, 32852, 20107, 20214,
      47, 20225, 19994, 25110, 20844, 21496, 21160, 24577, 47, 24066, 22330, 24322,
      21160, 19982, 20132, 26131, 20107, 20214, 47, 31038, 20250, 19982, 27665, 29983,
      20107, 20214, 47, 31185, 25216, 19982, 21019, 26032, 36827, 23637, 47, 27861,
      24459, 19982, 35785, 35772, 47, 30417, 31649, 34892, 21160, 19982, 21512, 35268,
      20107, 20214, 47, 22320, 29702, 19982, 21306, 22495, 20107, 20214, 47, 20154,
      20107, 21464, 21160, 65288, 38750, 20844, 21496, 23618, 38754, 65289, 47, 33286,
      24773, 20107, 20214, 31561, 31561, 34, 10, 32, 32, 32, 32, 32, 32, 32, 32, 32, 32,
      32, 32, 32, 32, 34, 105, 109, 112, 111, 114, 116, 97, 110, 99, 101, 32, 114, 97,
      110, 107, 105, 110, 103, 34, 58, 32, 34, 20107, 20214, 24433, 21709, 19982, 37325,
      35201, 24615, 35780, 20998, 40, 49, 45, 53, 41, 34, 44, 10, 32, 32, 32, 32, 32,
      32, 32, 32, 32, 32, 32, 32, 32, 32, 34, 98, 97, 115, 105, 115, 34, 58, 34, 35780,
      20998, 20381, 25454, 19982, 21407, 29702, 34, 10, 32, 32, 32, 32, 32, 32, 32, 32,
      32, 32, 32, 32, 32, 32, 10, 32, 32, 32, 32, 32, 32, 32, 32, 32, 32, 32, 32, 125,
      44, 10, 32, 32, 32, 32, 32, 32, 32, 32, 32, 32, 32, 32, 46, 46, 46, 10, 32, 32,
      32, 32, 32, 32, 32, 32, 32, 32, 93, 10, 32, 32, 32, 32, 32, 32, 32, 32, 125, 10,
      10, 32, 32, 32, 32, 32, 32, 32, 32, 35201, 27714, 65306, 10, 32, 32, 32, 32, 32,
      32, 32, 32, 49, 46, 32, 21482, 36820, 22238, 74, 83, 79, 78, 26684, 24335, 65292,
      19981, 35201, 20854, 20182, 20869, 23481, 10, 32, 32, 32, 32, 32, 32, 32, 32, 50,
      46, 32, 20026, 27599, 26465, 26032, 38395, 33267, 23569, 25552, 21462, 19968,
      20010, 20107, 20214, 10, 32, 32, 32, 32, 32, 32, 32, 32, 51, 46, 32, 37325, 28857,
      20851, 27880, 37329, 34701, 12289, 32463, 27982, 12289, 25919, 31574, 30456,
      20851, 20107, 20214, 10, 32, 32, 32, 32, 32, 32, 32, 32, 52, 46, 32, 22914, 26524,
      26032, 38395, 26080, 20851, 25237, 36164, 65292, 105, 109, 112, 97, 99, 116, 95,
      108, 101, 118, 101, 108, 35774, 20026, 34, 108, 111, 119, 34, 10, 32, 32, 32, 32,
      32, 32, 32, 32]"

text \<open>The default of \<open>source\<close> and \<open>timestamp\<close> in the prompt (U+672A, U+77E5).\<close>

definition unknown_text :: pystr where
  "unknown_text = [26410, 30693]"

definition single_prompt :: "news_item \<Rightarrow> pystr" where
  "single_prompt news =
     single_prompt_head @ field_or (news_title news) []
     @ single_prompt_content @ take 1000 (field_or (news_content news) [])
     @ single_prompt_source @ field_or (news_source news) unknown_text
     @ single_prompt_time @ field_or (news_timestamp news) unknown_text
     @ single_prompt_tail"

definition required_output_fields :: "pystr list" where
  "required_output_fields =
     [lit ''core_events'', lit ''impact_level'', lit ''time_horizon'', lit ''affected_assets'']"

text \<open>\<open>_clean_llm_response\<close>: the fences are removed, and what is left is cut to the span
  from the first \<open>{\<close> to the last \<open>}\<close> when both exist.\<close>

definition clean_llm_response :: "pylib \<Rightarrow> pystr \<Rightarrow> pystr" where
  "clean_llm_response L response = brace_span (strip_fences L response)"

text \<open>\<open>all(field in event_data for field in fields)\<close> stops at the first field that is
  missing, and raises where \<open>in\<close> raises.\<close>

fun has_all_fields :: "pystr list \<Rightarrow> pyval \<Rightarrow> pyexc + bool" where
  "has_all_fields [] v = Inr True"
| "has_all_fields (f # fs) v =
     (case py_in f v of
        Inl e \<Rightarrow> Inl e
      | Inr present \<Rightarrow> if present then has_all_fields fs v else Inr False)"

definition parse_single_response :: "pylib \<Rightarrow> pystr \<Rightarrow> pyexc + pyval" where
  "parse_single_response L response =
     (case json_loads L (clean_llm_response L response) of
        Inl e \<Rightarrow> Inl e
      | Inr event_data \<Rightarrow>
          (case has_all_fields required_output_fields event_data of
             Inl e \<Rightarrow> Inl e
           | Inr ok \<Rightarrow> if ok then Inr event_data else Inl ValueError))"

text \<open>The keyword lists of the extractor's \<open>_create_default_event\<close>, and its fixed
  implication text.\<close>

definition high_impact_words :: "pystr list" where
  "high_impact_words =
     [[21033, 29575], [38477, 24687], [21152, 24687], [36890, 32960], [34928, 36864],
      [21361, 26426], [21050, 28608], [36130, 25253], [30408, 21033]]"

definition low_impact_words :: "pystr list" where
  "low_impact_words =
     [[35266, 28857], [35780, 35770], [20998, 26512], [39044, 35745], [21487, 33021]]"

definition automatic_result_text :: pystr where
  "automatic_result_text = [33258, 21160, 20998, 26512, 32467, 26524]"

definition extractor_default_event :: "pylib \<Rightarrow> news_item \<Rightarrow> pyval" where
  "extractor_default_event L news =
     (let title = field_or (news_title news) [];
          content = field_or (news_content news) [];
          combined_text = str_lower L (title @ content);
          impact_level =
            (if list_ex (\<lambda>word. is_substr word combined_text) high_impact_words
             then lit ''high''
             else if list_ex (\<lambda>word. is_substr word combined_text) low_impact_words
             then lit ''low''
             else lit ''medium'')
      in PDict
           [(lit ''core_event'', PStr (if title \<noteq> [] then title else take 100 content)),
            (lit ''impact_level'', PStr impact_level),
            (lit ''time_horizon'', PStr (lit ''short'')),
            (lit ''affected_assets'', PList []),
            (lit ''investment_implication'', PStr automatic_result_text),
            (lit ''confidence'', PFloat (5 / 10))])"

text \<open>\<open>extract_single_event\<close>: the oracle is called outside the \<open>try\<close>, so its
  exception leaves the function; a response that does not parse gives the default
  event.\<close>

definition extract_single_event ::
  "pylib \<Rightarrow> 'o llm_oracle \<Rightarrow> 'o \<Rightarrow> news_item \<Rightarrow> (pyexc + pyval) \<times> 'o" where
  "extract_single_event L llm o1 news =
     (case llm o1 (single_prompt news) of
        (Inl e, o2) \<Rightarrow> (Inl e, o2)
      | (Inr response, o2) \<Rightarrow>
          (case parse_single_response L response of
             Inr event_data \<Rightarrow> (Inr event_data, o2)
           | Inl e \<Rightarrow> (Inr (extractor_default_event L news), o2)))"

text \<open>\<open>process([news])\<close> goes to \<open>_process_single\<close>, whose \<open>extracted_events\<close> are
  the event when it is truthy.\<close>

definition process_single ::
  "pylib \<Rightarrow> 'o llm_oracle \<Rightarrow> 'o \<Rightarrow> news_item \<Rightarrow> (pyexc + pyval list) \<times> 'o" where
  "process_single L llm o1 news =
     (case extract_single_event L llm o1 news of
        (Inl e, o2) \<Rightarrow> (Inl e, o2)
      | (Inr event, o2) \<Rightarrow> (Inr (if truthy event then [event] else []), o2))"

section \<open>main.py: batch extraction\<close>

definition opt_str :: "pystr option \<Rightarrow> pyval" where
  "opt_str field = (case field of None \<Rightarrow> PNone | Some s \<Rightarrow> PStr s)"

definition opt_int :: "int option \<Rightarrow> pyval" where
  "opt_int field = (case field of None \<Rightarrow> PNone | Some i \<Rightarrow> PInt i)"

text \<open>The \<open>_create_default_event\<close> of \<open>main.py\<close>, used when the single-item call itself
  raises.\<close>

definition further_analysis_text :: pystr where
  "further_analysis_text = [38656, 35201, 36827, 19968, 27493, 20998, 26512]"

definition create_default_event :: "news_item \<Rightarrow> pyval" where
  "create_default_event news =
     PDict
       [(lit ''core_event'', PStr (take 100 (field_or (news_content news) []))),
        (lit ''impact_level'', PStr (lit ''low'')),
        (lit ''time_horizon'', PStr (lit ''short'')),
        (lit ''affected_assets'', PList []),
        (lit ''investment_implication'', PStr further_analysis_text),
        (lit ''confidence'', PFloat (3 / 10)),
        (lit ''source_file'', opt_str (news_source_file news)),
        (lit ''source_line'', opt_int (news_source_line news))]"

fun fallback_single_processing ::
  "pylib \<Rightarrow> 'o llm_oracle \<Rightarrow> 'o \<Rightarrow> news_item list \<Rightarrow> pyval list \<times> 'o" where
  "fallback_single_processing L llm o1 [] = ([], o1)"
| "fallback_single_processing L llm o1 (news # rest) =
     (case process_single L llm o1 news of
        (Inr events, o2) \<Rightarrow>
          (case fallback_single_processing L llm o2 rest of
             (later, o3) \<Rightarrow> (events @ later, o3))
      | (Inl e, o2) \<Rightarrow>
          (case fallback_single_processing L llm o2 rest of
             (later, o3) \<Rightarrow> (create_default_event news # later, o3)))"

text \<open>\<open>str(i)\<close> for a natural number, and the batch prompt: one numbered line per item
  between the head and the tail of the template.\<close>

function decimal :: "nat \<Rightarrow> pystr" where
  "decimal i = (if i < 10 then [48 + i] else decimal (i div 10) @ [48 + i mod 10])"
  by pat_completeness auto
termination
  by (relation "measure (\<lambda>i. i)") auto

definition batch_line_label :: pystr where
  "batch_line_label = [46, 32, 20869, 23481, 58, 32]"

fun news_list_text :: "nat \<Rightarrow> news_item list \<Rightarrow> pystr" where
  "news_list_text i [] = []"
| "news_list_text i (news # rest) =
     decimal (i + 1) @ batch_line_label @ take 800 (field_or (news_content news) []) @ [10]
     @ news_list_text (i + 1) rest"

definition build_batch_prompt :: "news_item list \<Rightarrow> pystr" where
  "build_batch_prompt news_batch =
     batch_prompt_head @ news_list_text 0 news_batch @ batch_prompt_tail"

text \<open>The four provenance fields an event receives from its news item.\<close>

definition add_provenance :: "pydict \<Rightarrow> news_item \<Rightarrow> pydict" where
  "add_provenance event item =
     dict_set
       (dict_set
         (dict_set
           (dict_set event (lit ''source_file'') (opt_str (news_source_file item)))
           (lit ''source_line'') (opt_int (news_source_line item)))
         (lit ''original_timestamp'') (opt_str (news_timestamp item)))
       (lit ''original_category'') (opt_str (news_category item))"

text \<open>
  One round of the loop over \<open>batch_events\<close>: \<open>event.get('news_index', 1) - 1\<close> needs a
  dictionary and a number; an integer index in range selects the news item; a float in
  range cannot index the list.
\<close>

definition annotate_event :: "news_item list \<Rightarrow> pyval \<Rightarrow> pyexc + pyval" where
  "annotate_event original_news event =
     (case event of
        PDict d \<Rightarrow>
          (case dict_get_or d (lit ''news_index'') (PInt 1) of
             PInt i \<Rightarrow>
               Inr (PDict (if 0 \<le> i - 1 \<and> i - 1 < int (length original_news)
                           then add_provenance d (original_news ! nat (i - 1)) else d))
           | PBool b \<Rightarrow>
               Inr (PDict (if b \<and> original_news \<noteq> []
                           then add_provenance d (original_news ! 0) else d))
           | PFloat r \<Rightarrow>
               if 0 \<le> r - 1 \<and> r - 1 < real (length original_news) then Inl TypeError
               else Inr (PDict d)
           | _ \<Rightarrow> Inl TypeError)
      | _ \<Rightarrow> Inl AttributeError)"

fun annotate_events :: "news_item list \<Rightarrow> pyval list \<Rightarrow> pyexc + pyval list" where
  "annotate_events original_news [] = Inr []"
| "annotate_events original_news (event # rest) =
     (case annotate_event original_news event of
        Inl e \<Rightarrow> Inl e
      | Inr event' \<Rightarrow>
          (case annotate_events original_news rest of
             Inl e \<Rightarrow> Inl e
           | Inr rest' \<Rightarrow> Inr (event' # rest')))"

text \<open>
  \<open>_parse_batch_response\<close>. Every exception is logged and raised again. The decoded
  result must be a dictionary (\<open>result.get\<close>); \<open>batch_events\<close> must have a length; the
  loop goes over the elements of a list, and over the characters of a string or the keys
  of a dictionary, which have no \<open>get\<close>. The count of the elements is compared with the
  count of the news items for a warning only.
\<close>

definition parse_batch_response :: "pylib \<Rightarrow> pystr \<Rightarrow> news_item list \<Rightarrow> pyexc + pyval" where
  "parse_batch_response L response original_news =
     (let cleaned = strip_fences L response;
          start = find_char 123 cleaned;
          end = rfind_char 125 cleaned + 1
      in if start = - 1 \<or> end = 0 then Inl ValueError
         else
           (case json_loads L (slice cleaned start end) of
              Inl e \<Rightarrow> Inl e
            | Inr result \<Rightarrow>
                (case result of
                   PDict d \<Rightarrow>
                     (let batch_events = dict_get_or d (lit ''batch_events'') (PList [])
                      in case py_len batch_events of
                           Inl e \<Rightarrow> Inl e
                         | Inr count \<Rightarrow>
                             (case batch_events of
                                PList events \<Rightarrow>
                                  (case annotate_events original_news events of
                                     Inl e \<Rightarrow> Inl e
                                   | Inr events' \<Rightarrow> Inr (PList events'))
                              | _ \<Rightarrow> if count = 0 then Inr batch_events else Inl AttributeError))
                 | _ \<Rightarrow> Inl AttributeError)))"

text \<open>\<open>_process_news_batch\<close>: one oracle call for the batch; any exception of the call
  or of the parsing sends the batch to the single-item fallback.\<close>

definition process_news_batch ::
  "pylib \<Rightarrow> 'o llm_oracle \<Rightarrow> 'o \<Rightarrow> news_item list \<Rightarrow> pyval \<times> 'o" where
  "process_news_batch L llm o1 news_batch =
     (if news_batch = [] then (PList [], o1)
      else
        (case llm o1 (build_batch_prompt news_batch) of
           (Inr response, o2) \<Rightarrow>
             (case parse_batch_response L response news_batch of
                Inr batch_events \<Rightarrow> (batch_events, o2)
              | Inl e \<Rightarrow>
                  (case fallback_single_processing L llm o2 news_batch of
                     (events, o3) \<Rightarrow> (PList events, o3)))
         | (Inl e, o2) \<Rightarrow>
             (case fallback_single_processing L llm o2 news_batch of
                (events, o3) \<Rightarrow> (PList events, o3))))"

text \<open>
  The reconciliation as a function of one element: an element whose \<open>news_index\<close> (1 when
  absent) names a news item receives the provenance of that item; any other element
  stays as it is. \<open>indexed_element\<close> says that an element is a dictionary with an integer
  \<open>news_index\<close> or none.
\<close>

definition indexed_element :: "pyval \<Rightarrow> bool" where
  "indexed_element event =
     (case event of
        PDict d \<Rightarrow>
          (case dict_get_or d (lit ''news_index'') (PInt 1) of PInt i \<Rightarrow> True | _ \<Rightarrow> False)
      | _ \<Rightarrow> False)"

definition reconcile :: "news_item list \<Rightarrow> pyval \<Rightarrow> pyval" where
  "reconcile original_news event =
     (case event of
        PDict d \<Rightarrow>
          (case dict_get_or d (lit ''news_index'') (PInt 1) of
             PInt i \<Rightarrow>
               if 1 \<le> i \<and> i \<le> int (length original_news)
               then PDict (add_provenance d (original_news ! nat (i - 1)))
               else event
           | _ \<Rightarrow> event)
      | _ \<Rightarrow> event)"

text \<open>An oracle that answers every prompt with the same text and counts its calls.\<close>

definition constant_oracle :: "pystr \<Rightarrow> nat llm_oracle" where
  "constant_oracle answer calls prompt = (Inr answer, calls + 1)"

definition two_elements_response :: pystr where
  "two_elements_response =
     lit ''{\"batch_events\": [{\"news_index\": 1, \"core_event\": \"first\"}, {\"news_index\": 2, \"core_event\": \"extra\"}]}''"

text \<open>A batch of five items, and an answer of the oracle that is prose.\<close>

definition five_item_batch :: "news_item list" where
  "five_item_batch =
     sample_feed
     @ [sample_news\<lparr> news_id := Some (lit ''4422910''),
                       news_content := Some (lit ''Jobs data beats forecasts'') \<rparr>]"

definition prose_response :: pystr where
  "prose_response = lit ''I am sorry, I cannot analyse these items.''"

text \<open>
  The fallback in the words of the specification: the items of the batch are processed
  one by one, in their order, and each gives exactly one event: the decoded answer of
  the oracle when the single-item extraction succeeds, the placeholder of the extractor
  when the answer does not parse, the placeholder of \<open>main.py\<close> when the call raises.
\<close>

definition item_event ::
  "pylib \<Rightarrow> 'o llm_oracle \<Rightarrow> 'o \<Rightarrow> news_item \<Rightarrow> pyval \<times> 'o" where
  "item_event L llm o1 news =
     (case llm o1 (single_prompt news) of
        (Inl e, o2) \<Rightarrow> (create_default_event news, o2)
      | (Inr response, o2) \<Rightarrow>
          (case parse_single_response L response of
             Inr event \<Rightarrow> (event, o2)
           | Inl e \<Rightarrow> (extractor_default_event L news, o2)))"

fun item_events ::
  "pylib \<Rightarrow> 'o llm_oracle \<Rightarrow> 'o \<Rightarrow> news_item list \<Rightarrow> pyval list \<times> 'o" where
  "item_events L llm o1 [] = ([], o1)"
| "item_events L llm o1 (news # rest) =
     (case item_event L llm o1 news of
        (event, o2) \<Rightarrow>
          (case item_events L llm o2 rest of
             (later, o3) \<Rightarrow> (event # later, o3)))"

definition confidence_of :: "pyval \<Rightarrow> pyval" where
  "confidence_of event =
     (case event of PDict d \<Rightarrow> dict_get d (lit ''confidence'') | _ \<Rightarrow> PNone)"

text \<open>An oracle whose every call raises.\<close>

definition failing_oracle :: "nat llm_oracle" where
  "failing_oracle calls prompt = (Inl OtherException, calls + 1)"

text \<open>A text has braces when \<open>find('{')\<close> and \<open>rfind('}')\<close> both find one.\<close>

definition has_braces :: "pystr \<Rightarrow> bool" where
  "has_braces text = (find_char 123 text \<noteq> - 1 \<and> rfind_char 125 text + 1 \<noteq> 0)"

section \<open>Helper lemmas\<close>

subsection \<open>Dictionaries\<close>

lemma dict_get_or_Some: "map_of d k = Some v \<Longrightarrow> dict_get_or d k dflt = v"
  by (simp add: dict_get_or_def)

lemma dict_get_Some: "map_of d k = Some v \<Longrightarrow> dict_get d k = v"
  by (simp add: dict_get_def)

lemma map_of_dict_set: "map_of (dict_set d k v) k' = (if k' = k then Some v else map_of d k')"
  by (simp add: dict_set_def update_conv')

lemma dict_get_dict_set: "dict_get (dict_set d k v) k' = (if k' = k then v else dict_get d k')"
  by (simp add: dict_get_def map_of_dict_set)

subsection \<open>Priority scores\<close>

lemma contains_any_total:
  "\<exists>b. matches_condition L event holdings (ContainsAny field vs) = Inr b"
  by (cases "dict_get event field"; cases holdings; auto)

lemma gte_total:
  assumes "map_of event (lit ''impact_level'') = Some (PStr (impact_name i))"
  shows "\<exists>b. matches_condition L event holdings (Gte (lit ''impact_level'') (lit ''medium'')) = Inr b"
  using assms by (cases i) (auto simp: dict_get_def impact_levels_def lit_def)

lemma matches_rule_total:
  "list_all (\<lambda>c. \<exists>b. matches_condition L event holdings c = Inr b) cs
   \<Longrightarrow> \<exists>m. matches_rule L event holdings cs = Inr m"
  by (induction cs) auto

lemma apply_priority_rules_total:
  "list_all (\<lambda>r. \<exists>m. matches_rule L event holdings (rule_conditions r) = Inr m) rs
   \<Longrightarrow> \<exists>bonus. apply_priority_rules L rs event holdings = Inr bonus"
  by (induction rs) auto

lemma load_priority_rules_total:
  assumes "map_of event (lit ''impact_level'') = Some (PStr (impact_name i))"
  shows "\<exists>bonus. apply_priority_rules L load_priority_rules event holdings = Inr bonus"
proof (rule apply_priority_rules_total)
  have g: "\<exists>b. matches_condition L event holdings (Gte (lit ''impact_level'') (lit ''medium'')) = Inr b"
    by (rule gte_total [OF assms])
  have e: "\<And>f v. \<exists>b. matches_condition L event holdings (Equals f v) = Inr b"
    by simp
  show "list_all (\<lambda>r. \<exists>m. matches_rule L event holdings (rule_conditions r) = Inr m) load_priority_rules"
    unfolding load_priority_rules_def
    by (simp del: matches_rule.simps matches_condition.simps
          add: matches_rule_total g e contains_any_total)
qed

lemma impact_scores_get: "table_get impact_scores (PStr (impact_name i)) 10 = Inr (impactWeight i)"
  by (cases i) (simp_all add: table_get_def impact_scores_def lit_def)

lemma time_scores_get: "table_get time_scores (PStr (horizon_name h)) 15 = Inr (timeWeight h)"
  by (cases h) (simp_all add: table_get_def time_scores_def lit_def)



text \<open>Every timestamp reads as one of the three, unless it is a string that is a time
  with a UTC offset.\<close>

lemma reads_as_cases:
  "(\<exists>st. reads_as L v st)
   \<or> (\<exists>s x. v = Some (PStr s) \<and> from_isoformat L (zulu_to_offset s) = Some (Aware x))"
proof (cases v)
  case None
  then have "reads_as L v Absent" by simp
  then show ?thesis by blast
next
  case (Some t)
  show ?thesis
  proof (cases t)
    case PNone
    with Some have "reads_as L v Absent" by simp
    then show ?thesis by blast
  next
    case (PBool b)
    show ?thesis
    proof (cases b)
      case False
      with Some PBool have "reads_as L v Absent" by simp
      then show ?thesis by blast
    next
      case True
      show ?thesis
      proof (cases "from_timestamp L 1")
        case None
        with Some PBool True have "reads_as L v Unreadable" by simp
        then show ?thesis by blast
      next
        case (Some x)
        with \<open>v = Some t\<close> PBool True have "reads_as L v (Elapsed ((now_seconds L - x) / 3600))"
          by simp
        then show ?thesis by blast
      qed
    qed
  next
    case (PInt i)
    show ?thesis
    proof (cases "i = 0")
      case True
      with Some PInt have "reads_as L v Absent" by simp
      then show ?thesis by blast
    next
      case False
      show ?thesis
      proof (cases "from_timestamp L (real_of_int i)")
        case None
        with Some PInt False have "reads_as L v Unreadable" by simp
        then show ?thesis by blast
      next
        case (Some x)
        with \<open>v = Some t\<close> PInt False have "reads_as L v (Elapsed ((now_seconds L - x) / 3600))"
          by simp
        then show ?thesis by blast
      qed
    qed
  next
    case (PFloat r)
    show ?thesis
    proof (cases "r = 0")
      case True
      with Some PFloat have "reads_as L v Absent" by simp
      then show ?thesis by blast
    next
      case False
      show ?thesis
      proof (cases "from_timestamp L r")
        case None
        with Some PFloat False have "reads_as L v Unreadable" by simp
        then show ?thesis by blast
      next
        case (Some x)
        with \<open>v = Some t\<close> PFloat False have "reads_as L v (Elapsed ((now_seconds L - x) / 3600))"
          by simp
        then show ?thesis by blast
      qed
    qed
  next
    case (PStr s)
    show ?thesis
    proof (cases "s = []")
      case True
      with Some PStr have "reads_as L v Absent" by simp
      then show ?thesis by blast
    next
      case False
      show ?thesis
      proof (cases "from_isoformat L (zulu_to_offset s)")
        case None
        with Some PStr False have "reads_as L v Unreadable" by simp
        then show ?thesis by blast
      next
        case (Some dt)
        show ?thesis
        proof (cases dt)
          case (Naive x)
          with \<open>v = Some t\<close> PStr False Some
          have "reads_as L v (Elapsed ((now_seconds L - x) / 3600))" by simp
          then show ?thesis by blast
        next
          case (Aware x)
          with \<open>v = Some t\<close> PStr Some show ?thesis by blast
        qed
      qed
    qed
  next
    case (PList xs)
    with Some have "reads_as L v (if xs = [] then Absent else Unreadable)" by simp
    then show ?thesis by blast
  next
    case (PDict d)
    with Some have "reads_as L v (if d = [] then Absent else Unreadable)" by simp
    then show ?thesis by blast
  qed
qed








lemmas lib_simps = py_ref_def ref_space_def ref_alnum_def ref_lower_def ascii_digit_def

lemmas clock_simps = ref_fromisoformat_def zulu_to_offset_def str_replace_def match_at_def





text \<open>
  A timestamp with a UTC offset is outside the amended claim. The code replaces a
  trailing \<open>Z\<close> so that the string parses, and then fails to subtract the aware result
  from the naive clock: the calm event stamped half an hour ago in UTC gets the decay
  0.7, and scores 21 where the half hour would give 30.
\<close>

lemma aware_timestamp_example:
  "calculate_priority_score py_ref zulu_event None = Inr 21
   \<and> from_isoformat py_ref (zulu_to_offset (lit ''2023-11-14T21:43:20Z'')) = Some (Aware 1699998200)
   \<and> (now_seconds py_ref - 1699998200) / 3600 = 1 / 2"
  by (simp add: calculate_priority_score_def load_priority_rules_def zulu_event_def
        calm_event_def dict_set_def dict_get_def dict_get_or_def table_get_def
        impact_scores_def time_scores_def calculate_time_penalty_def parse_event_time_def
        hours_since_def clock_simps lit_def lib_simps impact_levels_def)

text \<open>
  Claim C6 as stated fails: for the high-impact, short-horizon event the matching rule
  adds 100, so with confidence 0.9 and with confidence 0.2 the score is clamped to the
  same 100.
\<close>

theorem confidence_not_strict_counterexample:
  "calculate_priority_score py_ref (dict_set hot_event (lit ''confidence'') (PFloat (9 / 10))) None = Inr 100
   \<and> calculate_priority_score py_ref (dict_set hot_event (lit ''confidence'') (PFloat (2 / 10))) None = Inr 100"
  by (simp add: calculate_priority_score_def load_priority_rules_def hot_event_def dict_set_def
        dict_get_def dict_get_or_def table_get_def impact_scores_def time_scores_def
        calculate_time_penalty_def lit_def lib_simps impact_levels_def)

lemma matches_condition_dict_set:
  "cond_field c \<noteq> k \<Longrightarrow>
   matches_condition L (dict_set event k v) holdings c = matches_condition L event holdings c"
  by (cases c) (simp_all add: dict_get_dict_set)

lemma matches_rule_dict_set:
  "list_all (\<lambda>c. cond_field c \<noteq> k) cs \<Longrightarrow>
   matches_rule L (dict_set event k v) holdings cs = matches_rule L event holdings cs"
  by (induction cs) (auto simp: matches_condition_dict_set split: sum.splits)

lemma apply_priority_rules_dict_set:
  "list_all (\<lambda>r. list_all (\<lambda>c. cond_field c \<noteq> k) (rule_conditions r)) rs \<Longrightarrow>
   apply_priority_rules L rs (dict_set event k v) holdings = apply_priority_rules L rs event holdings"
  by (induction rs) (auto simp: matches_rule_dict_set split: sum.splits)

lemma rule_bonus_confidence:
  "apply_priority_rules L load_priority_rules (dict_set event (lit ''confidence'') v) holdings =
   apply_priority_rules L load_priority_rules event holdings"
  by (rule apply_priority_rules_dict_set) (simp add: load_priority_rules_def lit_def)

lemma time_penalty_confidence:
  "calculate_time_penalty L (dict_set event (lit ''confidence'') v) = calculate_time_penalty L event"
  by (simp add: calculate_time_penalty_def dict_get_dict_set lit_def)

lemma apply_priority_rules_nonneg:
  "apply_priority_rules L rs event holdings = Inr bonus \<Longrightarrow> list_all (\<lambda>r. 0 \<le> rule_score r) rs
   \<Longrightarrow> 0 \<le> bonus"
  by (induction rs arbitrary: bonus) (auto split: sum.splits if_splits)

lemma load_priority_rules_nonneg:
  "apply_priority_rules L load_priority_rules event holdings = Inr bonus \<Longrightarrow> 0 \<le> bonus"
  by (erule apply_priority_rules_nonneg) (simp add: load_priority_rules_def)

lemma time_penalty_pos: "0 < calculate_time_penalty L event"
  by (simp add: calculate_time_penalty_def Let_def split: option.splits)

lemma impactWeight_pos: "0 < impactWeight i" by (cases i) simp_all
lemma timeWeight_pos: "0 < timeWeight h" by (cases h) simp_all

text \<open>
  Claim C6, amended. For two events that differ in the confidence only (0.9 against
  0.2), with impact level and time horizon in their enumerations, scored with the same
  holdings under the same clock, both scores exist, the score of the 0.9 event is at
  least the score of the 0.2 event, and it is strictly higher whenever the score of the
  0.2 event is below the cap of 100.
\<close>

theorem confidence_monotone:
  assumes "map_of event (lit ''impact_level'') = Some (PStr (impact_name i))"
      and "map_of event (lit ''time_horizon'') = Some (PStr (horizon_name h))"
  shows "\<exists>s9 s2.
           calculate_priority_score L (dict_set event (lit ''confidence'') (PFloat (9 / 10))) holdings = Inr s9
         \<and> calculate_priority_score L (dict_set event (lit ''confidence'') (PFloat (2 / 10))) holdings = Inr s2
         \<and> s2 \<le> s9 \<and> (s2 < 100 \<longrightarrow> s2 < s9)"
proof -
  obtain bonus where b: "apply_priority_rules L load_priority_rules event holdings = Inr bonus"
    using load_priority_rules_total [OF assms(1)] by blast
  have b0: "0 \<le> bonus" by (rule load_priority_rules_nonneg [OF b])
  define w where "w = impactWeight i + timeWeight h"
  define d where "d = calculate_time_penalty L event"
  have w0: "0 < w" unfolding w_def using impactWeight_pos [of i] timeWeight_pos [of h] by simp
  have d0: "0 < d" unfolding d_def by (rule time_penalty_pos)
  have sc: "calculate_priority_score L (dict_set event (lit ''confidence'') (PFloat c)) holdings =
              Inr (max 0 (min 100 ((w * c + bonus) * d)))" for c
  proof -
    have i: "dict_get_or (dict_set event (lit ''confidence'') (PFloat c)) (lit ''impact_level'') (PStr (lit ''low''))
               = PStr (impact_name i)"
      using assms(1) by (simp add: dict_get_or_def map_of_dict_set lit_def)
    have t: "dict_get_or (dict_set event (lit ''confidence'') (PFloat c)) (lit ''time_horizon'') (PStr (lit ''mid''))
               = PStr (horizon_name h)"
      using assms(2) by (simp add: dict_get_or_def map_of_dict_set lit_def)
    have k: "dict_get_or (dict_set event (lit ''confidence'') (PFloat c)) (lit ''confidence'') (PFloat (5 / 10))
               = PFloat c"
      by (simp add: dict_get_or_def map_of_dict_set)
    show ?thesis
      unfolding calculate_priority_score_def i t k
      by (simp add: impact_scores_get time_scores_get rule_bonus_confidence b
            time_penalty_confidence w_def d_def)
  qed
  let ?x9 = "(w * (9 / 10) + bonus) * d" and ?x2 = "(w * (2 / 10) + bonus) * d"
  have lt: "?x2 < ?x9" using w0 d0 by simp
  have pos: "0 < ?x9" using w0 d0 b0 by (simp add: add_pos_nonneg)
  have "max 0 (min 100 ?x2) \<le> max 0 (min 100 ?x9)" using lt by (simp add: max_def min_def)
  moreover have "max 0 (min 100 ?x2) < 100 \<longrightarrow> max 0 (min 100 ?x2) < max 0 (min 100 ?x9)"
    using lt pos by (auto simp: max_def min_def)
  ultimately show ?thesis using sc [of "9 / 10"] sc [of "2 / 10"] by blast
qed

theorem confidence_monotone_witness:
  "\<exists>s9 s2.
     calculate_priority_score py_ref (dict_set calm_event (lit ''confidence'') (PFloat (9 / 10))) None = Inr s9
   \<and> calculate_priority_score py_ref (dict_set calm_event (lit ''confidence'') (PFloat (2 / 10))) None = Inr s2
   \<and> s2 \<le> s9 \<and> (s2 < 100 \<longrightarrow> s2 < s9)"
proof -
  have 1: "map_of calm_event (lit ''impact_level'') = Some (PStr (impact_name Medium))"
    by (simp add: calm_event_def lit_def)
  have 2: "map_of calm_event (lit ''time_horizon'') = Some (PStr (horizon_name Long))"
    by (simp add: calm_event_def lit_def)
  show ?thesis by (rule confidence_monotone [OF 1 2])
qed

subsection \<open>Quality gate\<close>

lemma dict_has_Some: "map_of d k = Some v \<Longrightarrow> dict_has d k"
  by (simp add: dict_has_def)

text \<open>
  Claim C9 as stated fails at both ends: an event that is valid in every other respect
  is rejected when its \<open>core_event\<close> has exactly 5 characters, and when it has exactly
  500.
\<close>

theorem five_chars_invalid_counterexample:
  "validate_single_event five_char_event event_extraction_rules = Inr [ContentInvalid]
   \<and> validate_single_event
         (dict_set five_char_event (lit ''core_event'') (PStr (replicate 500 97)))
         event_extraction_rules = Inr [ContentInvalid]"
  by (simp add: dict_set_def validate_single_event_def event_extraction_rules_def five_char_event_def
        missing_field_errors_def dict_has_def dict_get_def dict_get_or_def in_unit_interval_def
        core_event_longer_than_def core_event_shorter_than_def py_len_def lit_def)

text \<open>
  Claim C9, amended. For an event record with \<open>core_event\<close> a string, impact level and
  time horizon in their enumerations and a confidence in [0,1], the validation of the
  record returns, and it passes (no error) exactly when the length of \<open>core_event\<close> is
  strictly between 5 and 500, that is from 6 to 499 characters.
\<close>

theorem validate_single_event_length:
  assumes "map_of event (lit ''core_event'') = Some (PStr s)"
      and "map_of event (lit ''impact_level'') = Some (PStr (impact_name i))"
      and "map_of event (lit ''time_horizon'') = Some (PStr (horizon_name h))"
      and "map_of event (lit ''confidence'') = Some (PFloat c)"
      and "0 \<le> c" and "c \<le> 1"
  shows "\<exists>errs. validate_single_event event event_extraction_rules = Inr errs
           \<and> (errs = [] \<longleftrightarrow> 5 < length s \<and> length s < 500)"
proof -
  have i: "PStr (impact_name i) \<in> set [PStr (lit ''low''), PStr (lit ''medium''), PStr (lit ''high'')]"
    by (cases i) simp_all
  have h: "PStr (horizon_name h) \<in> set [PStr (lit ''short''), PStr (lit ''mid''), PStr (lit ''long'')]"
    by (cases h) simp_all
  have f: "field_errors (field_validators event_extraction_rules) event = Inr []"
    using assms i h
    by (simp add: event_extraction_rules_def dict_has_Some dict_get_Some in_unit_interval_def
          del: set_simps)
  have m: "missing_field_errors (required_fields event_extraction_rules) event = []"
    using assms by (simp add: event_extraction_rules_def missing_field_errors_def dict_has_Some)
  have c: "content_errors (content_validators event_extraction_rules) event =
             Inr ((if 5 < length s then [] else [ContentInvalid])
                  @ (if length s < 500 then [] else [ContentInvalid]))"
    using assms(1)
    by (simp add: event_extraction_rules_def core_event_longer_than_def
          core_event_shorter_than_def dict_get_or_Some py_len_def)
  show ?thesis
    by (simp add: validate_single_event_def f m c)
qed

theorem validate_single_event_length_witness:
  "\<exists>errs. validate_single_event five_char_event event_extraction_rules = Inr errs
     \<and> (errs = [] \<longleftrightarrow> 5 < length (lit ''abcde'') \<and> length (lit ''abcde'') < 500)"
proof -
  have 1: "map_of five_char_event (lit ''core_event'') = Some (PStr (lit ''abcde''))"
    by (simp add: five_char_event_def lit_def)
  have 2: "map_of five_char_event (lit ''impact_level'') = Some (PStr (impact_name Low))"
    by (simp add: five_char_event_def lit_def)
  have 3: "map_of five_char_event (lit ''time_horizon'') = Some (PStr (horizon_name Mid))"
    by (simp add: five_char_event_def lit_def)
  have 4: "map_of five_char_event (lit ''confidence'') = Some (PFloat (1 / 2))"
    by (simp add: five_char_event_def lit_def)
  show ?thesis
    by (rule validate_single_event_length [OF 1 2 3 4]) simp_all
qed

text \<open>
  Claim C10. On an empty collection \<open>validate_event_extraction\<close> returns
  \<open>is_valid = False\<close> and an empty error list (and records the ratio 0).
\<close>

theorem validate_empty_extraction:
  "validate_event_extraction m [] =
     Inr (False, [], record_metric m (lit ''event_extraction_quality'') 0)"
  by (simp add: validate_event_extraction_def)

subsection \<open>Result cache\<close>

text \<open>
  Claim C5 as stated fails: a compute function that returns \<open>None\<close> is called again by
  the second invocation, one second after the first and well inside the hour of the
  default TTL, because the stored \<open>None\<close> reads as a miss.
\<close>

theorem compute_none_twice_counterexample:
  "get_or_compute_twice empty_cache (lit ''k'') (\<lambda>n. Inr PNone) None 0 0 1 1
     = (Inr PNone, Inr PNone, 2)"
  by (simp add: get_or_compute_twice_def get_or_compute_def cache_get_def cache_set_def
        disk_get_def disk_set_def empty_cache_def effective_ttl_def)

text \<open>
  Claim C5, amended. When the first invocation misses and the compute function returns
  a value other than \<open>None\<close>, a second invocation with the same key before the entry
  expires (its lookup earlier than the time of the store plus the effective TTL)
  returns that value from the cache, and the compute function has been called exactly
  once over the two invocations.
\<close>

theorem get_or_compute_once:
  assumes "fst (cache_get c t1 key) = PNone"
      and "compute 0 = Inr v"
      and "v \<noteq> PNone"
      and "t2 < t1' + real_of_int (effective_ttl c ttl)"
  shows "get_or_compute_twice c key compute ttl t1 t1' t2 t2' = (Inr v, Inr v, 1)"
proof -
  obtain r c1 where g: "cache_get c t1 key = (r, c1)" by (cases "cache_get c t1 key")
  with assms(1) have r: "r = PNone" by simp
  have ttl: "effective_ttl c1 ttl = effective_ttl c ttl"
    using g by (auto simp: cache_get_def effective_ttl_def Let_def split: if_splits option.splits)
  have first: "get_or_compute c t1 t1' key compute ttl 0
                 = (Inr v, cache_set c1 t1' key v ttl, Suc 0)"
    by (simp add: get_or_compute_def g r assms(2))
  have hit: "disk_get (cache_store (cache_set c1 t1' key v ttl)) t2 key = v"
    using assms(4) by (simp add: cache_set_def disk_set_def disk_get_def ttl)
  have second: "get_or_compute (cache_set c1 t1' key v ttl) t2 t2' key compute ttl (Suc 0)
                  = (Inr v, (cache_set c1 t1' key v ttl)
                       \<lparr>stat_hits := stat_hits (cache_set c1 t1' key v ttl) + 1\<rparr>, Suc 0)"
    using assms(3) by (simp add: get_or_compute_def cache_get_def hit)
  show ?thesis
    by (simp add: get_or_compute_twice_def first second)
qed

theorem get_or_compute_once_witness:
  "get_or_compute_twice empty_cache (lit ''k'') (\<lambda>n. Inr (PInt (int n))) None 0 2 3000 3001
     = (Inr (PInt 0), Inr (PInt 0), 1)"
  using get_or_compute_once [where c = empty_cache and ?t1.0 = 0 and key = "lit ''k''"
      and compute = "\<lambda>n. Inr (PInt (int n))" and v = "PInt 0" and ?t2.0 = 3000
      and t1' = 2 and ttl = None and t2' = 3001]
  by (simp add: cache_get_def disk_get_def empty_cache_def effective_ttl_def)

subsection \<open>Response repair\<close>

lemmas decode_value_numeral = decode_value.simps(2)[of "pred_numeral k", folded numeral_eq_Suc] for k
lemmas decode_items_numeral = decode_items.simps(2)[of "pred_numeral k", folded numeral_eq_Suc] for k
lemmas decode_members_numeral = decode_members.simps(2)[of "pred_numeral k", folded numeral_eq_Suc] for k

lemmas decoder_simps = decode_value_numeral decode_items_numeral decode_members_numeral
  ref_json_loads_def skip_ws_def json_ws_def expect_def scan_number_def ascii_digit_def
  digits_value_def dict_set_def simple_escape_def unicode_escape_def hex4_def hex_value_def Let_def

lemmas json_utils_simps = safe_json_parse_def basic_clean_def strip_fences_def strip_def
  fence_rx_def fence_json_rx_def control_char_def str_replace_def fix_common_json_issues_def
  rx_unescaped_quote_def rx_single_quoted_def rx_adjacent_strings_def rx_digit_quote_def
  rx_brace_quote_def rx_bracket_quote_def re_word_def bare_value_char_def rx_bare_pair_def
  rx_trailing_comma_def match_at_def grp_def aggressive_json_repair_def brace_span_def
  is_valid_json_def rfind_char_def slice_def build_fallback_json_def fallback_message_def


lemma ref_json_loads_raises: "ref_json_loads t = Inl e \<Longrightarrow> e = JSONDecodeError"
  by (auto simp: ref_json_loads_def split: option.splits if_splits)




text \<open>
  The strings left out of the amended claim. The first \<open>try\<close> of \<open>safe_json_parse\<close>
  catches \<open>json.JSONDecodeError\<close> and nothing else, while \<open>json.loads\<close> also raises
  \<open>ValueError\<close> (an integer literal of more digits than the conversion limit) and
  \<open>RecursionError\<close> (brackets nested deeper than the interpreter's stack). Whatever the
  first decoding raises other than \<open>JSONDecodeError\<close> leaves \<open>safe_json_parse\<close>, for
  every decoder; the second \<open>try\<close> and \<open>_is_valid_json\<close>, with their bare \<open>except\<close>,
  let nothing through.
\<close>

lemma safe_json_parse_raises:
  assumes "s \<noteq> []"
      and "json_loads L (fix_common_json_issues L (basic_clean L s)) = Inl e"
      and "e \<noteq> JSONDecodeError"
  shows "safe_json_parse L (PStr s) dflt = Inl e"
  using assms by (simp add: safe_json_parse_def)

text \<open>
  Claim C7 at two well-formed inputs. The text \<^verbatim>\<open>{"a1": 2}\<close> decodes to the object
  with key \<^verbatim>\<open>a1\<close>, but the comma repair \<^verbatim>\<open>(\d)\s*"\<close> fires on the digit that
  ends the key, and \<open>safe_json_parse\<close> returns an object with the key \<^verbatim>\<open>a1, \<close>.
  The text \<^verbatim>\<open>{"q": "a\"b"}\<close> decodes to a string with a quote in it, but
  \<open>_basic_clean\<close> removes the backslash, nothing decodes any more, and
  \<open>safe_json_parse\<close> returns the fallback object.
\<close>

theorem valid_json_not_preserved:
  "json_loads py_ref (lit ''{\"a1\": 2}'') = Inr (PDict [(lit ''a1'', PInt 2)])
   \<and> safe_json_parse py_ref (PStr (lit ''{\"a1\": 2}'')) PNone = Inr (PDict [(lit ''a1, '', PInt 2)])
   \<and> json_loads py_ref (lit ''{\"q\": \"a'' @ [92, 34] @ lit ''b\"}'')
        = Inr (PDict [(lit ''q'', PStr (lit ''a\"b''))])
   \<and> safe_json_parse py_ref (PStr (lit ''{\"q\": \"a'' @ [92, 34] @ lit ''b\"}'')) PNone
        = Inr fallback_object"
  by (simp add: json_utils_simps lib_simps decoder_simps lit_def fallback_object_def)

text \<open>What does hold of well-formed input: when the normalisation leaves the text as it is,
  the result is its decoding.\<close>

lemma safe_json_parse_unchanged:
  assumes "s \<noteq> []"
      and "fix_common_json_issues L (basic_clean L s) = s"
      and "json_loads L s = Inr v"
  shows "safe_json_parse L (PStr s) dflt = Inr v"
  using assms by (simp add: safe_json_parse_def)

subsection \<open>Deduplication\<close>

lemma scan_inv_initial: "scan_inv L initial_scan"
  by (simp add: scan_inv_def initial_scan_def)

lemma scan_inv_dup:
  assumes "scan_inv L st"
  shows "list_ex (\<lambda>k. duplicate_of L k x) (all_news st) \<longleftrightarrow>
         id_seen (news_id x) (processed_ids st) \<or> fingerprint L x \<in> processed_hashes st"
proof -
  have ids: "id_seen (news_id x) (processed_ids st) \<longleftrightarrow>
               (\<exists>k \<in> set (all_news st).
                  (case news_id x of None \<Rightarrow> False | Some i \<Rightarrow> i \<noteq> [] \<and> news_id k = Some i))"
    using assms by (cases "news_id x") (auto simp: scan_inv_def id_seen_def)
  have hs: "fingerprint L x \<in> processed_hashes st \<longleftrightarrow>
              (\<exists>k \<in> set (all_news st). fingerprint L x = fingerprint L k)"
    using assms by (auto simp: scan_inv_def image_iff)
  show ?thesis
    unfolding ids hs list_ex_iff duplicate_of_def by blast
qed

lemma scan_inv_keep:
  assumes "scan_inv L st"
  shows "scan_inv L (st\<lparr>news_count := n, all_news := all_news st @ [x],
           processed_ids := add_id (news_id x) (processed_ids st),
           processed_hashes := insert (fingerprint L x) (processed_hashes st)\<rparr>)"
  using assms
  by (auto simp: scan_inv_def add_id_def split: option.splits)

lemma scan_inv_count:
  "scan_inv L (st\<lparr>news_count := n\<rparr>) = scan_inv L st"
  "scan_inv L (st\<lparr>duplicate_count := d\<rparr>) = scan_inv L st"
  by (simp_all add: scan_inv_def)

lemma scan_news_inv: "scan_inv L st \<Longrightarrow> scan_inv L (scan_news L n items st)"
proof (induction items arbitrary: st)
  case Nil
  then show ?case by simp
next
  case (Cons x rest)
  let ?st1 = "st\<lparr>news_count := news_count st + 1\<rparr>"
  let ?dup = "?st1\<lparr>duplicate_count := duplicate_count ?st1 + 1\<rparr>"
  let ?st2 = "?st1\<lparr>all_news := all_news ?st1 @ [x],
                  processed_ids := add_id (news_id x) (processed_ids ?st1),
                  processed_hashes := insert (fingerprint L x) (processed_hashes ?st1)\<rparr>"
  have d: "scan_inv L ?dup" using Cons.prems by (simp add: scan_inv_def)
  have k: "scan_inv L ?st2"
    using Cons.prems by (auto simp: scan_inv_def add_id_def split: option.splits)
  show ?case
    using Cons.IH [OF d] Cons.IH [OF k] k
    by (simp add: Let_def)
qed

lemma scan_news_counts:
  "duplicate_count st + length (all_news st) = news_count st \<Longrightarrow>
   duplicate_count (scan_news L n items st) + length (all_news (scan_news L n items st))
     = news_count (scan_news L n items st)"
  by (induction items arbitrary: st) (simp_all add: Let_def)

lemma scan_news_count_bounds:
  "news_count st \<le> news_count (scan_news L n items st)
   \<and> news_count (scan_news L n items st) \<le> news_count st + length items"
proof (induction items arbitrary: st)
  case Nil
  then show ?case by simp
next
  case (Cons x rest)
  let ?st1 = "st\<lparr>news_count := news_count st + 1\<rparr>"
  let ?dup = "?st1\<lparr>duplicate_count := duplicate_count ?st1 + 1\<rparr>"
  let ?st2 = "?st1\<lparr>all_news := all_news ?st1 @ [x],
                  processed_ids := add_id (news_id x) (processed_ids ?st1),
                  processed_hashes := insert (fingerprint L x) (processed_hashes ?st1)\<rparr>"
  show ?case
    using Cons.IH [of ?dup] Cons.IH [of ?st2]
    by (simp add: Let_def)
qed

lemma scan_news_length:
  "int (length (all_news st)) < n \<Longrightarrow> int (length (all_news (scan_news L n items st))) \<le> n"
proof (induction items arbitrary: st)
  case Nil
  then show ?case by simp
next
  case (Cons x rest)
  let ?st1 = "st\<lparr>news_count := news_count st + 1\<rparr>"
  let ?dup = "?st1\<lparr>duplicate_count := duplicate_count ?st1 + 1\<rparr>"
  let ?st2 = "?st1\<lparr>all_news := all_news ?st1 @ [x],
                  processed_ids := add_id (news_id x) (processed_ids ?st1),
                  processed_hashes := insert (fingerprint L x) (processed_hashes ?st1)\<rparr>"
  show ?case
    using Cons.IH [of ?dup] Cons.IH [of ?st2] Cons.prems
    by (auto simp: Let_def)
qed

lemma take_diff_Cons:
  "Suc a \<le> m \<Longrightarrow> take (m - a) (x # xs) = x # take (m - Suc a) xs"
proof -
  assume "Suc a \<le> m"
  then have "m - a = Suc (m - Suc a)" by simp
  then show ?thesis by simp
qed

lemma nth_diff_Cons:
  "Suc (Suc a) \<le> m \<Longrightarrow> (x # xs) ! (m - a - 1) = xs ! (m - Suc a - 1)"
proof -
  assume "Suc (Suc a) \<le> m"
  then have "m - a - 1 = Suc (m - Suc a - 1)" by simp
  then show ?thesis by simp
qed

lemma scan_news_progress:
  "news_count (scan_news L n items st) = news_count st \<Longrightarrow> scan_news L n items st = st"
proof (cases items)
  case Nil
  then show ?thesis by simp
next
  case (Cons x rest)
  let ?st1 = "st\<lparr>news_count := news_count st + 1\<rparr>"
  let ?dup = "?st1\<lparr>duplicate_count := duplicate_count ?st1 + 1\<rparr>"
  let ?st2 = "?st1\<lparr>all_news := all_news ?st1 @ [x],
                  processed_ids := add_id (news_id x) (processed_ids ?st1),
                  processed_hashes := insert (fingerprint L x) (processed_hashes ?st1)\<rparr>"
  assume e: "news_count (scan_news L n items st) = news_count st"
  have "Suc (news_count st) \<le> news_count (scan_news L n items st)"
    using scan_news_count_bounds [of ?dup L n rest] scan_news_count_bounds [of ?st2 L n rest]
    by (simp add: Cons Let_def)
  with e show ?thesis by simp
qed

lemma scan_news_kept:
  "scan_inv L st \<Longrightarrow>
   all_news (scan_news L n items st)
     = keep_first L (all_news st) (take (news_count (scan_news L n items st) - news_count st) items)"
proof (induction items arbitrary: st)
  case Nil
  then show ?case by simp
next
  case (Cons x rest)
  let ?st1 = "st\<lparr>news_count := news_count st + 1\<rparr>"
  let ?dup = "?st1\<lparr>duplicate_count := duplicate_count ?st1 + 1\<rparr>"
  let ?st2 = "?st1\<lparr>all_news := all_news ?st1 @ [x],
                  processed_ids := add_id (news_id x) (processed_ids ?st1),
                  processed_hashes := insert (fingerprint L x) (processed_hashes ?st1)\<rparr>"
  have d: "scan_inv L ?dup" using Cons.prems by (simp add: scan_inv_def)
  have k: "scan_inv L ?st2"
    using Cons.prems by (auto simp: scan_inv_def add_id_def split: option.splits)
  have test: "list_ex (\<lambda>k. duplicate_of L k x) (all_news st) \<longleftrightarrow>
                id_seen (news_id x) (processed_ids st) \<or> fingerprint L x \<in> processed_hashes st"
    by (rule scan_inv_dup [OF Cons.prems])
  show ?case
  proof (cases "id_seen (news_id x) (processed_ids st) \<or> fingerprint L x \<in> processed_hashes st")
    case True
    have b: "Suc (news_count st) \<le> news_count (scan_news L n rest ?dup)"
      using scan_news_count_bounds [of ?dup L n rest] by simp
    have s: "scan_news L n (x # rest) st = scan_news L n rest ?dup"
      using True by (auto simp: Let_def)
    show ?thesis
      unfolding s using Cons.IH [OF d] True test b
      by (simp add: take_diff_Cons)
  next
    case False
    show ?thesis
    proof (cases "n \<le> int (length (all_news ?st2))")
      case stop: True
      have s: "scan_news L n (x # rest) st = ?st2"
        using False stop by (simp add: Let_def)
      show ?thesis unfolding s using False test by simp
    next
      case go: False
      have s: "scan_news L n (x # rest) st = scan_news L n rest ?st2"
        using False go by (simp add: Let_def)
      have b: "Suc (news_count st) \<le> news_count (scan_news L n rest ?st2)"
        using scan_news_count_bounds [of ?st2 L n rest] by simp
      show ?thesis
        unfolding s using Cons.IH [OF k] False test b
        by (simp add: take_diff_Cons)
    qed
  qed
qed

lemma scan_news_stops:
  "int (length (all_news st)) < n \<Longrightarrow>
   news_count (scan_news L n items st) < news_count st + length items \<Longrightarrow>
   int (length (all_news (scan_news L n items st))) = n
   \<and> all_news (scan_news L n items st) \<noteq> []
   \<and> last (all_news (scan_news L n items st))
       = items ! (news_count (scan_news L n items st) - news_count st - 1)"
proof (induction items arbitrary: st)
  case Nil
  then show ?case by simp
next
  case (Cons x rest)
  let ?st1 = "st\<lparr>news_count := news_count st + 1\<rparr>"
  let ?dup = "?st1\<lparr>duplicate_count := duplicate_count ?st1 + 1\<rparr>"
  let ?st2 = "?st1\<lparr>all_news := all_news ?st1 @ [x],
                  processed_ids := add_id (news_id x) (processed_ids ?st1),
                  processed_hashes := insert (fingerprint L x) (processed_hashes ?st1)\<rparr>"
  show ?case
  proof (cases "id_seen (news_id x) (processed_ids st) \<or> fingerprint L x \<in> processed_hashes st")
    case True
    let ?r = "scan_news L n rest ?dup"
    have s: "scan_news L n (x # rest) st = ?r"
      using True by (auto simp: Let_def)
    have lt: "news_count ?r < news_count ?dup + length rest"
      using Cons.prems(2) unfolding s by simp
    have len: "int (length (all_news ?dup)) < n" using Cons.prems(1) by simp
    note ih = Cons.IH [OF len lt]
    have b: "Suc (Suc (news_count st)) \<le> news_count ?r"
    proof (rule ccontr)
      assume "\<not> Suc (Suc (news_count st)) \<le> news_count ?r"
      moreover have "Suc (news_count st) \<le> news_count ?r"
        using scan_news_count_bounds [of ?dup L n rest] by simp
      ultimately have "news_count ?r = news_count ?dup" by simp
      then have "?r = ?dup" by (rule scan_news_progress)
      then show False using ih len by simp
    qed
    show ?thesis
      unfolding s using ih b by (simp add: nth_diff_Cons)
  next
    case False
    show ?thesis
    proof (cases "n \<le> int (length (all_news ?st2))")
      case stop: True
      have s: "scan_news L n (x # rest) st = ?st2"
        using False stop by (simp add: Let_def)
      show ?thesis unfolding s using stop Cons.prems(1) by simp
    next
      case go: False
      let ?r = "scan_news L n rest ?st2"
      have s: "scan_news L n (x # rest) st = ?r"
        using False go by (simp add: Let_def)
      have lt: "news_count ?r < news_count ?st2 + length rest"
        using Cons.prems(2) unfolding s by simp
      have len: "int (length (all_news ?st2)) < n" using go by simp
      note ih = Cons.IH [OF len lt]
      have b: "Suc (Suc (news_count st)) \<le> news_count ?r"
      proof (rule ccontr)
        assume "\<not> Suc (Suc (news_count st)) \<le> news_count ?r"
        moreover have "Suc (news_count st) \<le> news_count ?r"
          using scan_news_count_bounds [of ?st2 L n rest] by simp
        ultimately have "news_count ?r = news_count ?st2" by simp
        then have "?r = ?st2" by (rule scan_news_progress)
        then show False using ih len by simp
      qed
      show ?thesis
        unfolding s using ih b by (simp add: nth_diff_Cons)
    qed
  qed
qed

text \<open>
  Claim C4 as stated fails for the target count 0: the count is compared only after an
  item has been collected, so the scan of a one-item source collects that item instead
  of stopping with nothing.
\<close>

theorem zero_target_counterexample:
  "all_news (load_news_scan py_ref 0 [sample_news]) = [sample_news]
   \<and> news_count (load_news_scan py_ref 0 [sample_news]) = 1"
  by (simp add: load_news_scan_def initial_scan_def Let_def id_seen_def sample_news_def)

text \<open>
  Claim C4, amended. For every finite sequence of items and every target count
  \<open>n \<ge> 1\<close>: the duplicate count plus the number of collected items is the number of
  items scanned; the collected items are the scanned prefix with every item dropped
  whose non-empty id is the id of an item kept before it or whose fingerprint is the
  fingerprint of one, the first occurrence kept; at most \<open>n\<close> items are collected; and
  when the scan ends before the end of the source, exactly \<open>n\<close> items have been
  collected and the last item scanned is the last one collected.
\<close>

theorem scan_news_dedup:
  assumes "1 \<le> n"
  shows "duplicate_count (load_news_scan L n items) + length (all_news (load_news_scan L n items))
           = news_count (load_news_scan L n items)
       \<and> news_count (load_news_scan L n items) \<le> length items
       \<and> all_news (load_news_scan L n items)
           = keep_first L [] (take (news_count (load_news_scan L n items)) items)
       \<and> int (length (all_news (load_news_scan L n items))) \<le> n
       \<and> (news_count (load_news_scan L n items) < length items \<longrightarrow>
            int (length (all_news (load_news_scan L n items))) = n
          \<and> last (all_news (load_news_scan L n items))
              = items ! (news_count (load_news_scan L n items) - 1))"
proof -
  have len: "int (length (all_news initial_scan)) < n"
    using assms by (simp add: initial_scan_def)
  have cnt: "duplicate_count initial_scan + length (all_news initial_scan) = news_count initial_scan"
    by (simp add: initial_scan_def)
  have z: "news_count initial_scan = 0" "all_news initial_scan = []"
    by (simp_all add: initial_scan_def)
  show ?thesis
    unfolding load_news_scan_def
    using scan_news_counts [OF cnt, of L n items]
      scan_news_count_bounds [of initial_scan L n items]
      scan_news_kept [OF scan_inv_initial, of L n items]
      scan_news_length [OF len, of L items]
      scan_news_stops [OF len, of L items]
    by (simp add: z)
qed

theorem scan_news_dedup_witness:
  "all_news (load_news_scan py_ref 2 sample_feed) = [sample_news, other_news]
   \<and> news_count (load_news_scan py_ref 2 sample_feed) = 3
   \<and> duplicate_count (load_news_scan py_ref 2 sample_feed) = 1
   \<and> keep_first py_ref [] (take 3 sample_feed) = [sample_news, other_news]
   \<and> last (all_news (load_news_scan py_ref 2 sample_feed)) = sample_feed ! 2"
proof -
  have e: "load_news_scan py_ref 2 sample_feed =
             \<lparr> all_news = [sample_news, other_news], news_count = 3, duplicate_count = 1,
               processed_ids = {lit ''4422907'', lit ''4422906''},
               processed_hashes = {lit ''Central bank hints at rate cut'',
                                   lit ''Chip maker shares rise 5.1 percent''} \<rparr>"
    by (simp add: load_news_scan_def initial_scan_def Let_def id_seen_def add_id_def
          fingerprint_def get_content_hash_def field_or_def py_ref_def sample_feed_def
          sample_news_def other_news_def lit_def)
  have k: "keep_first py_ref [] (take 3 sample_feed) = [sample_news, other_news]"
    by (simp add: sample_feed_def duplicate_of_def fingerprint_def get_content_hash_def
          field_or_def py_ref_def sample_news_def other_news_def lit_def)
  have l: "sample_feed ! 2 = other_news"
    by (simp add: sample_feed_def)
  from scan_news_dedup [of 2 py_ref sample_feed]
  show ?thesis
    by (simp add: e k l)
qed

subsection \<open>Batch extraction and its fallback\<close>

lemma has_all_fields_truthy:
  "has_all_fields (f # fs) v = Inr True \<Longrightarrow> f \<noteq> [] \<Longrightarrow> truthy v"
  by (cases v) (auto simp: dict_has_def split: sum.splits if_splits)

lemma parse_single_response_truthy:
  "parse_single_response L response = Inr event \<Longrightarrow> truthy event"
proof -
  assume p: "parse_single_response L response = Inr event"
  then have "has_all_fields required_output_fields event = Inr True"
    by (auto simp: parse_single_response_def split: sum.splits if_splits)
  then show ?thesis
    unfolding required_output_fields_def
    by (rule has_all_fields_truthy) (simp add: lit_def)
qed

lemma extractor_default_event_truthy: "truthy (extractor_default_event L news)"
  by (simp add: extractor_default_event_def Let_def)

text \<open>A single-item extraction gives exactly one event, or raises what the oracle
  raises: the test \<open>if event\<close> never drops an event, since a decoded answer with the
  required fields and the placeholder are both non-empty.\<close>

lemma process_single_item_event:
  "process_single L llm o1 news =
     (case llm o1 (single_prompt news) of
        (Inl e, o2) \<Rightarrow> (Inl e, o2)
      | (Inr response, o2) \<Rightarrow> (Inr [fst (item_event L llm o1 news)], o2))"
proof (cases "llm o1 (single_prompt news)")
  case (Pair r o2)
  show ?thesis
  proof (cases r)
    case (Inl e')
    with Pair show ?thesis
      by (simp add: process_single_def extract_single_event_def)
  next
    case (Inr response)
    show ?thesis
    proof (cases "parse_single_response L response")
      case bad: (Inl e')
      with Pair Inr show ?thesis
        by (simp add: process_single_def extract_single_event_def item_event_def
              extractor_default_event_truthy)
    next
      case good: (Inr event)
      with Pair Inr parse_single_response_truthy [OF good] show ?thesis
        by (simp add: process_single_def extract_single_event_def item_event_def)
    qed
  qed
qed

lemma fallback_single_processing_item_events:
  "fallback_single_processing L llm o1 batch = item_events L llm o1 batch"
proof (induction batch arbitrary: o1)
  case Nil
  then show ?case by simp
next
  case (Cons news rest)
  show ?case
  proof (cases "llm o1 (single_prompt news)")
    case (Pair r o2)
    then show ?thesis
      by (cases r)
         (simp_all add: process_single_item_event item_event_def Cons.IH
            split: sum.splits prod.splits)
  qed
qed

lemma item_events_length: "length (fst (item_events L llm o1 batch)) = length batch"
proof (induction batch arbitrary: o1)
  case Nil
  then show ?case by simp
next
  case (Cons news rest)
  obtain event o2 where e: "item_event L llm o1 news = (event, o2)"
    by (cases "item_event L llm o1 news")
  obtain later o3 where l: "item_events L llm o2 rest = (later, o3)"
    by (cases "item_events L llm o2 rest")
  from Cons.IH [of o2] e l show ?case by simp
qed

text \<open>The two placeholders carry a fixed confidence.\<close>

lemma placeholder_confidence:
  "confidence_of (create_default_event news) = PFloat (3 / 10)"
  "confidence_of (extractor_default_event L news) = PFloat (1 / 2)"
  by (simp_all add: confidence_of_def create_default_event_def extractor_default_event_def
        Let_def dict_get_def lit_def)

text \<open>
  Claim C2. When the batch extraction of a non-empty batch fails entirely, because the
  oracle call raises or because \<open>_parse_batch_response\<close> raises on the answer (no braces,
  no JSON between them, or no object of the expected shape), \<open>_process_news_batch\<close>
  returns what \<open>_fallback_single_processing\<close> returns, and that is the list of the
  specification: the items processed one by one, in order, exactly one event for each, so
  as many events as the batch has items. The event of an item whose own extraction fails
  is a placeholder that depends on the item alone, with confidence 0.3 when the call
  raised and 0.5 when its answer did not parse.
\<close>

theorem batch_failure_falls_back:
  assumes "news_batch \<noteq> []"
      and "llm o1 (build_batch_prompt news_batch) = (r, o2)"
      and "case r of Inl e \<Rightarrow> True
           | Inr response \<Rightarrow> isl (parse_batch_response L response news_batch)"
  shows "process_news_batch L llm o1 news_batch
           = (PList (fst (item_events L llm o2 news_batch)),
              snd (item_events L llm o2 news_batch))
       \<and> fallback_single_processing L llm o2 news_batch = item_events L llm o2 news_batch
       \<and> length (fst (item_events L llm o2 news_batch)) = length news_batch
       \<and> confidence_of (create_default_event item) = PFloat (3 / 10)
       \<and> confidence_of (extractor_default_event L item) = PFloat (1 / 2)"
proof -
  have p: "process_news_batch L llm o1 news_batch
             = (PList (fst (fallback_single_processing L llm o2 news_batch)),
                snd (fallback_single_processing L llm o2 news_batch))"
    using assms
    by (auto simp: process_news_batch_def isl_def split: sum.splits prod.splits)
  show ?thesis
    using p
    by (simp add: fallback_single_processing_item_events item_events_length
          placeholder_confidence)
qed

lemma prose_not_parsed:
  "parse_batch_response py_ref prose_response news = Inl ValueError"
  by (simp add: parse_batch_response_def prose_response_def strip_fences_def strip_def
        fence_rx_def fence_json_rx_def match_at_def rfind_char_def lib_simps lit_def Let_def)

lemma prose_not_decoded:
  "parse_single_response py_ref prose_response = Inl JSONDecodeError"
  by (simp add: parse_single_response_def clean_llm_response_def brace_span_def
        prose_response_def strip_fences_def strip_def fence_rx_def fence_json_rx_def
        match_at_def rfind_char_def lib_simps decoder_simps lit_def)

lemma item_events_prose:
  "item_events py_ref (constant_oracle prose_response) calls batch
     = (map (extractor_default_event py_ref) batch, calls + length batch)"
  by (induction batch arbitrary: calls)
     (simp_all add: item_event_def constant_oracle_def prose_not_decoded)

lemma item_events_failing:
  "item_events L failing_oracle calls batch
     = (map create_default_event batch, calls + length batch)"
  by (induction batch arbitrary: calls)
     (simp_all add: item_event_def failing_oracle_def)

lemma five_items: "length five_item_batch = 5"
  by (simp add: five_item_batch_def sample_feed_def)

text \<open>The scenario of the specification: the oracle answers a batch of five items with
  prose, and then each of the five single-item calls with prose again. The batch call and
  the five calls make six, and the result is five placeholders of the extractor, one for
  each item in order.\<close>

theorem batch_failure_falls_back_witness:
  "process_news_batch py_ref (constant_oracle prose_response) 0 five_item_batch
     = (PList (map (extractor_default_event py_ref) five_item_batch), 6)
   \<and> fallback_single_processing py_ref (constant_oracle prose_response) 1 five_item_batch
     = (map (extractor_default_event py_ref) five_item_batch, 6)
   \<and> length (map (extractor_default_event py_ref) five_item_batch) = 5"
proof -
  have 1: "five_item_batch \<noteq> []"
    by (simp add: five_item_batch_def sample_feed_def)
  have 2: "constant_oracle prose_response 0 (build_batch_prompt five_item_batch)
             = (Inr prose_response, 1)"
    by (simp add: constant_oracle_def)
  have 3: "case (Inr prose_response :: pyexc + pystr) of Inl e \<Rightarrow> True
           | Inr response \<Rightarrow> isl (parse_batch_response py_ref response five_item_batch)"
    by (simp add: prose_not_parsed)
  from batch_failure_falls_back [where L = py_ref and llm = "constant_oracle prose_response"
      and ?o1.0 = 0 and ?o2.0 = 1 and r = "Inr prose_response"
      and news_batch = five_item_batch, OF 1 2 3]
  show ?thesis
    by (simp add: item_events_prose five_items)
qed

text \<open>With an oracle that raises at every call, the five events are the placeholders of
  \<open>main.py\<close>.\<close>

lemma failing_oracle_placeholders:
  "process_news_batch py_ref failing_oracle 0 five_item_batch
     = (PList (map create_default_event five_item_batch), 6)"
  by (simp add: process_news_batch_def failing_oracle_def five_items
        fallback_single_processing_item_events item_events_failing)
     (simp add: five_item_batch_def sample_feed_def)

subsection \<open>Reconciliation of a batch answer\<close>

lemma annotate_event_reconcile:
  "indexed_element event \<Longrightarrow> annotate_event news event = Inr (reconcile news event)"
  by (auto simp: indexed_element_def annotate_event_def reconcile_def
        split: pyval.splits)

lemma annotate_events_reconcile:
  "list_all indexed_element elements \<Longrightarrow>
     annotate_events news elements = Inr (map (reconcile news) elements)"
  by (induction elements) (simp_all add: annotate_event_reconcile)

lemma slice_brace_span:
  "has_braces text \<Longrightarrow>
     slice text (find_char 123 text) (rfind_char 125 text + 1) = brace_span text"
  by (simp add: has_braces_def brace_span_def Let_def)

text \<open>
  Claim C8 as stated fails on the extra elements: they are not ignored. For a batch of
  one item and an answer with two elements, \<open>_parse_batch_response\<close> returns both: the
  first, which names item 1, with the provenance of that item, and the second, which
  names an item 2 that the batch does not have, as it came. The batch call returns the
  two events for the one item.
\<close>

theorem extra_elements_counterexample:
  "parse_batch_response py_ref two_elements_response [sample_news]
     = Inr (PList
         [PDict [(lit ''news_index'', PInt 1), (lit ''core_event'', PStr (lit ''first'')),
                 (lit ''source_file'', PStr (lit ''news.txt'')), (lit ''source_line'', PInt 1),
                 (lit ''original_timestamp'', PStr (lit ''2025-10-08 22:46'')),
                 (lit ''original_category'', PNone)],
          PDict [(lit ''news_index'', PInt 2), (lit ''core_event'', PStr (lit ''extra''))]])
   \<and> process_news_batch py_ref (constant_oracle two_elements_response) 0 [sample_news]
     = (PList
         [PDict [(lit ''news_index'', PInt 1), (lit ''core_event'', PStr (lit ''first'')),
                 (lit ''source_file'', PStr (lit ''news.txt'')), (lit ''source_line'', PInt 1),
                 (lit ''original_timestamp'', PStr (lit ''2025-10-08 22:46'')),
                 (lit ''original_category'', PNone)],
          PDict [(lit ''news_index'', PInt 2), (lit ''core_event'', PStr (lit ''extra''))]], 1)"
proof -
  have p: "parse_batch_response py_ref two_elements_response [sample_news]
     = Inr (PList
         [PDict [(lit ''news_index'', PInt 1), (lit ''core_event'', PStr (lit ''first'')),
                 (lit ''source_file'', PStr (lit ''news.txt'')), (lit ''source_line'', PInt 1),
                 (lit ''original_timestamp'', PStr (lit ''2025-10-08 22:46'')),
                 (lit ''original_category'', PNone)],
          PDict [(lit ''news_index'', PInt 2), (lit ''core_event'', PStr (lit ''extra''))]])"
    by (simp add: parse_batch_response_def two_elements_response_def strip_fences_def strip_def
          fence_rx_def fence_json_rx_def match_at_def rfind_char_def slice_def lib_simps
          decoder_simps dict_get_or_def py_len_def annotate_event_def add_provenance_def
          opt_str_def opt_int_def sample_news_def lit_def)
  show ?thesis
    using p by (simp add: process_news_batch_def constant_oracle_def)
qed

text \<open>
  Claim C8, amended. Let the answer of the oracle to a non-empty batch have braces, let
  the text between its first \<open>{\<close> and its last \<open>}\<close> decode to an object, and let
  \<open>batch_events\<close> of that object be a list of objects whose \<open>news_index\<close> is an integer
  or absent. Then \<open>_parse_batch_response\<close> raises nothing, whatever the number of the
  elements is, \<open>_process_news_batch\<close> returns its result and does not go to the
  single-item fallback, and the result has every element of the answer, in the order of
  the answer: an element whose \<open>news_index\<close> (1 when absent) is between 1 and the number
  of the items has received the provenance of that item, and every other element, the
  extra ones among them, is as it came. An item that no element names receives no event.
\<close>

theorem parse_batch_response_reconciles:
  assumes "news_batch \<noteq> []"
      and "llm o1 (build_batch_prompt news_batch) = (Inr response, o2)"
      and "has_braces (strip_fences L response)"
      and "json_loads L (brace_span (strip_fences L response)) = Inr (PDict d)"
      and "dict_get_or d (lit ''batch_events'') (PList []) = PList elements"
      and "list_all indexed_element elements"
  shows "parse_batch_response L response news_batch
           = Inr (PList (map (reconcile news_batch) elements))
       \<and> process_news_batch L llm o1 news_batch
           = (PList (map (reconcile news_batch) elements), o2)"
proof -
  have b: "find_char 123 (strip_fences L response) \<noteq> - 1"
          "rfind_char 125 (strip_fences L response) + 1 \<noteq> 0"
    using assms(3) by (simp_all add: has_braces_def)
  have p: "parse_batch_response L response news_batch
             = Inr (PList (map (reconcile news_batch) elements))"
    using b assms(4,5) annotate_events_reconcile [OF assms(6), of news_batch]
    by (simp add: parse_batch_response_def Let_def slice_brace_span [OF assms(3)] py_len_def)
  show ?thesis
    using assms(1,2) p by (simp add: process_news_batch_def)
qed

text \<open>Two elements for the batch of five items: both receive the provenance of the item
  they name, and the items 3, 4 and 5 receive no event.\<close>

theorem parse_batch_response_reconciles_witness:
  "parse_batch_response py_ref two_elements_response five_item_batch
     = Inr (PList
         [PDict [(lit ''news_index'', PInt 1), (lit ''core_event'', PStr (lit ''first'')),
                 (lit ''source_file'', PStr (lit ''news.txt'')), (lit ''source_line'', PInt 1),
                 (lit ''original_timestamp'', PStr (lit ''2025-10-08 22:46'')),
                 (lit ''original_category'', PNone)],
          PDict [(lit ''news_index'', PInt 2), (lit ''core_event'', PStr (lit ''extra'')),
                 (lit ''source_file'', PStr (lit ''news.txt'')), (lit ''source_line'', PInt 1),
                 (lit ''original_timestamp'', PStr (lit ''2025-10-08 22:46'')),
                 (lit ''original_category'', PNone)]])
   \<and> process_news_batch py_ref (constant_oracle two_elements_response) 0 five_item_batch
     = (PList
         [PDict [(lit ''news_index'', PInt 1), (lit ''core_event'', PStr (lit ''first'')),
                 (lit ''source_file'', PStr (lit ''news.txt'')), (lit ''source_line'', PInt 1),
                 (lit ''original_timestamp'', PStr (lit ''2025-10-08 22:46'')),
                 (lit ''original_category'', PNone)],
          PDict [(lit ''news_index'', PInt 2), (lit ''core_event'', PStr (lit ''extra'')),
                 (lit ''source_file'', PStr (lit ''news.txt'')), (lit ''source_line'', PInt 1),
                 (lit ''original_timestamp'', PStr (lit ''2025-10-08 22:46'')),
                 (lit ''original_category'', PNone)]], 1)"
proof -
  let ?e1 = "PDict [(lit ''news_index'', PInt 1), (lit ''core_event'', PStr (lit ''first''))]"
  let ?e2 = "PDict [(lit ''news_index'', PInt 2), (lit ''core_event'', PStr (lit ''extra''))]"
  let ?d = "[(lit ''batch_events'', PList [?e1, ?e2])]"
  have 1: "five_item_batch \<noteq> []"
    by (simp add: five_item_batch_def sample_feed_def)
  have 2: "constant_oracle two_elements_response 0 (build_batch_prompt five_item_batch)
             = (Inr two_elements_response, 1)"
    by (simp add: constant_oracle_def)
  have s: "strip_fences py_ref two_elements_response = two_elements_response"
    by (simp add: two_elements_response_def strip_fences_def strip_def fence_rx_def
          fence_json_rx_def match_at_def lib_simps lit_def)
  have 3: "has_braces (strip_fences py_ref two_elements_response)"
    unfolding s by (simp add: has_braces_def two_elements_response_def rfind_char_def lit_def)
  have 4: "json_loads py_ref (brace_span (strip_fences py_ref two_elements_response)) = Inr (PDict ?d)"
    unfolding s
    by (simp add: two_elements_response_def brace_span_def rfind_char_def slice_def py_ref_def
          decoder_simps lit_def)
  have 5: "dict_get_or ?d (lit ''batch_events'') (PList []) = PList [?e1, ?e2]"
    by (simp add: dict_get_or_def)
  have 6: "list_all indexed_element [?e1, ?e2]"
    by (simp add: indexed_element_def dict_get_or_def lit_def)
  have 7: "map (reconcile five_item_batch) [?e1, ?e2] =
         [PDict [(lit ''news_index'', PInt 1), (lit ''core_event'', PStr (lit ''first'')),
                 (lit ''source_file'', PStr (lit ''news.txt'')), (lit ''source_line'', PInt 1),
                 (lit ''original_timestamp'', PStr (lit ''2025-10-08 22:46'')),
                 (lit ''original_category'', PNone)],
          PDict [(lit ''news_index'', PInt 2), (lit ''core_event'', PStr (lit ''extra'')),
                 (lit ''source_file'', PStr (lit ''news.txt'')), (lit ''source_line'', PInt 1),
                 (lit ''original_timestamp'', PStr (lit ''2025-10-08 22:46'')),
                 (lit ''original_category'', PNone)]]"
    by (simp add: reconcile_def dict_get_or_def add_provenance_def dict_set_def opt_str_def
          opt_int_def five_item_batch_def sample_feed_def sample_news_def lit_def)
  from parse_batch_response_reconciles [where L = py_ref
      and llm = "constant_oracle two_elements_response" and ?o1.0 = 0 and ?o2.0 = 1
      and response = two_elements_response and news_batch = five_item_batch
      and d = ?d and elements = "[?e1, ?e2]", OF 1 2 3 4 5 6]
  show ?thesis
    unfolding 7 .
qed

text \<open>An element that is not an object, or whose \<open>news_index\<close> is not a number, makes
  \<open>_parse_batch_response\<close> raise, which sends the batch to the single-item fallback.\<close>

lemma annotate_event_raises:
  "annotate_event news (PStr s) = Inl AttributeError"
  "annotate_event news (PDict [(lit ''news_index'', PStr s)]) = Inl TypeError"
  by (simp_all add: annotate_event_def dict_get_or_def)

end
